theory Spec2Isabelle
  imports Complex_Main
begin

section \<open>Calendar dates and month-end date ranges\<close>

text \<open>
  A timestamp of the table library, at day resolution: year, month (1..12), day.
  The extractor only builds timestamps at midnight, so the time of day is left out.
\<close>

datatype timestamp = Timestamp (ts_year: int) (ts_month: nat) (ts_day: nat)

definition is_leap :: "int \<Rightarrow> bool" where
  "is_leap y = (y mod 4 = 0 \<and> (y mod 100 \<noteq> 0 \<or> y mod 400 = 0))"

definition days_in_month :: "int \<Rightarrow> nat \<Rightarrow> nat" where
  "days_in_month y m =
     (if m = 2 then (if is_leap y then 29 else 28)
      else if m = 4 \<or> m = 6 \<or> m = 9 \<or> m = 11 then 30 else 31)"

definition ts_le :: "timestamp \<Rightarrow> timestamp \<Rightarrow> bool" where
  "ts_le a b =
     (ts_year a < ts_year b \<or>
      (ts_year a = ts_year b \<and>
        (ts_month a < ts_month b \<or> (ts_month a = ts_month b \<and> ts_day a \<le> ts_day b))))"

definition month_end :: "int \<Rightarrow> nat \<Rightarrow> timestamp" where
  "month_end y m = Timestamp y m (days_in_month y m)"

text \<open>
  \<^verbatim>\<open>pd.date_range(start, end, freq="ME")\<close>: the library rolls \<open>start\<close> forward to the end
  of its month and then yields month ends, one month at a time, while they are not after
  \<open>end\<close>.  \<open>generate_range_ME y m e\<close> is that loop with the cursor at the end of month
  \<open>m\<close> of year \<open>y\<close>.
\<close>

function generate_range_ME :: "int \<Rightarrow> nat \<Rightarrow> timestamp \<Rightarrow> timestamp list" where
  "generate_range_ME y m e =
     (if ts_le (month_end y m) e
      then month_end y m #
        (if 12 \<le> m then generate_range_ME (y + 1) 1 e else generate_range_ME y (Suc m) e)
      else [])"
  by pat_completeness auto
termination
  by (relation "measures [\<lambda>(y, m, e). nat (ts_year e - y + 1), \<lambda>(y, m, e). 12 - m]")
     (auto simp: ts_le_def month_end_def)

definition date_range_ME :: "timestamp \<Rightarrow> timestamp \<Rightarrow> timestamp list" where
  "date_range_ME start end' = generate_range_ME (ts_year start) (ts_month start) end'"


section \<open>Errors, cells and tables\<close>

text \<open>
  Every exception of the program is a value.  \<open>ValueError\<close> carries its message, since the
  program and the libraries it calls both raise it.
\<close>

datatype error =
    FileNotFoundError
  | KeyError
  | ValueError string
  | AttributeError
  | TypeError
  | IndexError
  | AssertionError

text \<open>
  A cell of a table of the extractor.  Floating-point numbers are modelled by exact
  rationals (rounding is not modelled); \<open>NaN\<close> is the missing number and \<open>PyNone\<close> is
  Python's \<open>None\<close>.  \<open>DatetimeIndex\<close> is the value of the transient \<open>range_date\<close> column.
\<close>

datatype cell =
    Num rat
  | NaN
  | Str string
  | Ts timestamp
  | DatetimeIndex "timestamp list"
  | PyNone

text \<open>\<^verbatim>\<open>pd.isna\<close> on a scalar.\<close>

definition isna :: "cell \<Rightarrow> bool" where
  "isna c = (c = NaN \<or> c = PyNone)"

text \<open>Python's \<^verbatim>\<open>int(x)\<close> on a number truncates toward zero.\<close>

definition py_int :: "rat \<Rightarrow> int" where
  "py_int r = (if 0 \<le> r then \<lfloor>r\<rfloor> else \<lceil>r\<rceil>)"

text \<open>
  A table (DataFrame): the column labels and the rows, in order.  The row labels of the
  library are not modelled: every table the program builds is relabelled \<open>0..n-1\<close> before
  it is aligned by label, so rows are identified by position.
\<close>

record 'c frame =
  cols :: "string list"
  rows :: "'c list list"

definition rectangular :: "'c frame \<Rightarrow> bool" where
  "rectangular df = list_all (\<lambda>r. length r = length (cols df)) (rows df)"

definition wf_frame :: "'c frame \<Rightarrow> bool" where
  "wf_frame df = (distinct (cols df) \<and> rectangular df)"

fun index_of :: "'a \<Rightarrow> 'a list \<Rightarrow> nat option" where
  "index_of x [] = None"
| "index_of x (y # ys) = (if x = y then Some 0 else map_option Suc (index_of x ys))"

text \<open>\<^verbatim>\<open>df[name].values\<close>: the cells of a column, \<open>KeyError\<close> when there is no such column.\<close>

definition get_column :: "string \<Rightarrow> 'c frame \<Rightarrow> error + 'c list" where
  "get_column name df =
     (case index_of name (cols df) of
        None \<Rightarrow> Inl KeyError
      | Some k \<Rightarrow> Inr (map (\<lambda>r. r ! k) (rows df)))"

text \<open>\<^verbatim>\<open>df[name] = vals\<close>: overwrite the column in place, or append it as the last one.\<close>

definition set_column :: "string \<Rightarrow> 'c list \<Rightarrow> 'c frame \<Rightarrow> error + 'c frame" where
  "set_column name vals df =
     (if length vals \<noteq> length (rows df)
      then Inl (ValueError ''Length of values does not match length of index'')
      else case index_of name (cols df) of
        None \<Rightarrow> Inr \<lparr>cols = cols df @ [name], rows = map2 (\<lambda>r v. r @ [v]) (rows df) vals\<rparr>
      | Some k \<Rightarrow> Inr \<lparr>cols = cols df, rows = map2 (\<lambda>r v. r[k := v]) (rows df) vals\<rparr>)"

text \<open>\<^verbatim>\<open>df.drop(columns=names)\<close>: \<open>KeyError\<close> when a label is not a column.\<close>

definition drop_cells :: "string list \<Rightarrow> string list \<Rightarrow> 'c list \<Rightarrow> 'c list" where
  "drop_cells names cs r = map snd (filter (\<lambda>(c, v). c \<notin> set names) (zip cs r))"

definition drop_columns :: "string list \<Rightarrow> 'c frame \<Rightarrow> error + 'c frame" where
  "drop_columns names df =
     (if \<not> set names \<subseteq> set (cols df) then Inl KeyError
      else Inr \<lparr>cols = filter (\<lambda>c. c \<notin> set names) (cols df),
                rows = map (drop_cells names (cols df)) (rows df)\<rparr>)"

text \<open>\<^verbatim>\<open>df.reset_index(drop=True)\<close> relabels the rows \<open>0..n-1\<close>; positions do not change.\<close>

definition reset_index_drop :: "'c frame \<Rightarrow> 'c frame" where
  "reset_index_drop df = df"

text \<open>
  \<^verbatim>\<open>pd.concat(dfs, axis=1)\<close> of tables labelled \<open>0..n-1\<close>: the columns side by side, row
  by row; a shorter table is padded with missing values.
\<close>

definition pad_rows :: "'c \<Rightarrow> nat \<Rightarrow> 'c frame \<Rightarrow> 'c list list" where
  "pad_rows na n df = rows df @ replicate (n - length (rows df)) (replicate (length (cols df)) na)"

definition concat_axis1 :: "'c \<Rightarrow> 'c frame list \<Rightarrow> 'c frame" where
  "concat_axis1 na dfs =
     (let n = foldr (\<lambda>df. max (length (rows df))) dfs 0
      in \<lparr>cols = concat (map cols dfs),
          rows = map (\<lambda>i. concat (map (\<lambda>df. pad_rows na n df ! i) dfs)) [0..<n]\<rparr>)"

text \<open>\<^verbatim>\<open>df.rename(columns={old: new})\<close>.\<close>

definition rename_column :: "string \<Rightarrow> string \<Rightarrow> 'c frame \<Rightarrow> 'c frame" where
  "rename_column old new df = df\<lparr>cols := map (\<lambda>c. if c = old then new else c) (cols df)\<rparr>"

text \<open>
  \<^verbatim>\<open>df.dropna(subset=[name])\<close>: \<open>KeyError\<close> when there is no such column; a row is kept
  when no column of that label holds a missing value.
\<close>

definition dropna_subset :: "('c \<Rightarrow> bool) \<Rightarrow> string \<Rightarrow> 'c frame \<Rightarrow> error + 'c frame" where
  "dropna_subset na name df =
     (if name \<notin> set (cols df) then Inl KeyError
      else Inr (df\<lparr>rows := filter (\<lambda>r. list_all (\<lambda>(c, v). c = name \<longrightarrow> \<not> na v) (zip (cols df) r))
                               (rows df)\<rparr>))"

text \<open>A function that may raise, applied to each element in turn (\<^verbatim>\<open>Series.apply\<close>).\<close>

fun map_err :: "('a \<Rightarrow> error + 'b) \<Rightarrow> 'a list \<Rightarrow> error + 'b list" where
  "map_err f [] = Inr []"
| "map_err f (x # xs) =
     (case f x of
        Inl e \<Rightarrow> Inl e
      | Inr y \<Rightarrow> (case map_err f xs of Inl e \<Rightarrow> Inl e | Inr ys \<Rightarrow> Inr (y # ys)))"

section \<open>The climate feature extractor\<close>

subsection \<open>Hydrological date ranges\<close>

text \<open>
  \<^verbatim>\<open>_create_date_range(year)\<close>: \<open>None\<close> for a missing year, otherwise the month ends from
  1 September of \<open>year - 1\<close> to 1 September of \<open>year\<close>.  The two dates are written by the
  source as ISO strings and parsed by the library; the model builds them directly.
  A year that is neither a number nor missing is outside the table's schema.
\<close>

definition create_date_range :: "cell \<Rightarrow> error + cell" where
  "create_date_range year =
     (if isna year then Inr PyNone
      else case year of
        Num r \<Rightarrow>
          (let y = py_int r
           in Inr (DatetimeIndex (date_range_ME (Timestamp (y - 1) 9 1) (Timestamp y 9 1))))
      | _ \<Rightarrow> Inl TypeError)"

text \<open>\<^verbatim>\<open>_add_date_range(df)\<close>: \<^verbatim>\<open>df["range_date"] = df["YEAR"].apply(_create_date_range)\<close>.\<close>

definition add_date_range :: "cell frame \<Rightarrow> error + cell frame" where
  "add_date_range df =
     (case get_column ''YEAR'' df of
        Inl e \<Rightarrow> Inl e
      | Inr years \<Rightarrow>
          (case map_err create_date_range years of
             Inl e \<Rightarrow> Inl e
           | Inr ranges \<Rightarrow> set_column ''range_date'' ranges df))"

subsection \<open>Arrays\<close>

text \<open>
  An n-dimensional array (\<^verbatim>\<open>np.ndarray\<close>): its shape and its elements in row-major order.
  \<^verbatim>\<open>reshape(-1, d1, ..)\<close> keeps the elements and infers the first dimension, and raises
  \<open>ValueError\<close> when the size is not a multiple of the given dimensions.
  \<^verbatim>\<open>transpose(0, 2, 1)\<close> swaps the last two axes of a three-dimensional array.
\<close>

record 'a ndarray =
  shape :: "nat list"
  flat :: "'a list"

definition to_numpy :: "'a frame \<Rightarrow> 'a ndarray" where
  "to_numpy df = \<lparr>shape = [length (rows df), length (cols df)], flat = concat (rows df)\<rparr>"

definition reshape_m1 :: "nat list \<Rightarrow> 'a ndarray \<Rightarrow> error + 'a ndarray" where
  "reshape_m1 dims a =
     (let p = prod_list dims
      in if p = 0 \<or> length (flat a) mod p \<noteq> 0
         then Inl (ValueError ''cannot reshape array'')
         else Inr \<lparr>shape = (length (flat a) div p) # dims, flat = flat a\<rparr>)"

definition transpose_021 :: "'a ndarray \<Rightarrow> 'a ndarray" where
  "transpose_021 a =
     (case shape a of
        [d0, d1, d2] \<Rightarrow>
          \<lparr>shape = [d0, d2, d1],
           flat = concat (map (\<lambda>i. concat (map (\<lambda>k. map (\<lambda>j. flat a ! (i * (d1 * d2) + j * d2 + k))
                                                     [0..<d1]) [0..<d2])) [0..<d0])\<rparr>
      | _ \<Rightarrow> a)"

text \<open>
  \<^verbatim>\<open>pd.DataFrame(array)\<close> of a two-dimensional array followed by
  \<^verbatim>\<open>result_df.columns = names\<close>, which raises \<open>ValueError\<close> when the number of labels is
  not the number of columns.
\<close>

definition DataFrame_of_array :: "'a ndarray \<Rightarrow> string list \<Rightarrow> error + 'a frame" where
  "DataFrame_of_array a names =
     (case shape a of
        [h, w] \<Rightarrow>
          if length names \<noteq> w then Inl (ValueError ''Length mismatch'')
          else Inr \<lparr>cols = names,
                    rows = map (\<lambda>i. map (\<lambda>q. flat a ! (i * w + q)) [0..<w]) [0..<h]\<rparr>
      | _ \<Rightarrow> Inl (ValueError ''Must pass 2-d input''))"

subsection \<open>Gridded datasets\<close>

text \<open>
  The climate dataset (an \<^verbatim>\<open>xr.Dataset\<close>): the coordinates of its grid and its data
  variables in order, each named.  A variable is modelled by its nearest-neighbour lookup
  \<^verbatim>\<open>sel(latitude, longitude, time, method="nearest")\<close>: the value at the grid point and
  time step nearest to the query.  Before the \<open>expver\<close> dimension is reduced the value is
  the list of values along \<open>expver\<close> (\<open>None\<close> for a missing number).
\<close>

record 'v climate_ds =
  latitude :: "rat list"
  longitude :: "rat list"
  data_vars :: "(string \<times> (rat \<Rightarrow> rat \<Rightarrow> timestamp \<Rightarrow> 'v)) list"

text \<open>\<^verbatim>\<open>list(ds.keys())\<close>: the names of the data variables.\<close>

definition keys :: "'v climate_ds \<Rightarrow> string list" where
  "keys ds = map fst (data_vars ds)"

text \<open>\<^verbatim>\<open>ds_climate["t2m"] = ds_climate["t2m"] - 273.15\<close>.\<close>

definition convert_t2m :: "rat option list climate_ds \<Rightarrow> error + rat option list climate_ds" where
  "convert_t2m ds =
     (if ''t2m'' \<notin> set (keys ds) then Inl KeyError
      else Inr (ds\<lparr>data_vars :=
        map (\<lambda>(name, f).
               if name = ''t2m''
               then (name, \<lambda>la lo t. map (map_option (\<lambda>x. x - 27315 / 100)) (f la lo t))
               else (name, f))
          (data_vars ds)\<rparr>))"

text \<open>\<^verbatim>\<open>ds_climate.reduce(np.nansum, "expver")\<close>: the sum along \<open>expver\<close>, missing values ignored.\<close>

definition nansum :: "rat option list \<Rightarrow> rat" where
  "nansum xs = sum_list (map (\<lambda>x. case x of None \<Rightarrow> 0 | Some v \<Rightarrow> v) xs)"

definition reduce_nansum_expver :: "rat option list climate_ds \<Rightarrow> cell climate_ds" where
  "reduce_nansum_expver ds =
     \<lparr>latitude = latitude ds, longitude = longitude ds,
      data_vars = map (\<lambda>(name, f). (name, \<lambda>la lo t. Num (nansum (f la lo t)))) (data_vars ds)\<rparr>"

text \<open>A coordinate of a query point must be a number.\<close>

definition as_num :: "cell \<Rightarrow> error + rat" where
  "as_num c = (case c of Num r \<Rightarrow> Inr r | _ \<Rightarrow> Inl KeyError)"

subsection \<open>Climate columns\<close>

text \<open>
  \<^verbatim>\<open>calendar.month_abbr\<close>: index 0 is the empty string, 1..12 are the months.
  \<open>slice_from\<close> and \<open>slice_range\<close> are Python's \<^verbatim>\<open>xs[a:]\<close> and \<^verbatim>\<open>xs[a:b]\<close>.
\<close>

definition month_abbr :: "string list" where
  "month_abbr = ['''', ''Jan'', ''Feb'', ''Mar'', ''Apr'', ''May'', ''Jun'',
                 ''Jul'', ''Aug'', ''Sep'', ''Oct'', ''Nov'', ''Dec'']"

definition slice_from :: "nat \<Rightarrow> 'a list \<Rightarrow> 'a list" where
  "slice_from a xs = drop a xs"

definition slice_range :: "nat \<Rightarrow> nat \<Rightarrow> 'a list \<Rightarrow> 'a list" where
  "slice_range a b xs = drop a (take b xs)"

text \<open>\<^verbatim>\<open>str.lower()\<close> on ASCII letters.\<close>

definition lower_char :: "char \<Rightarrow> char" where
  "lower_char c =
     (let n = of_char c :: nat in if 65 \<le> n \<and> n \<le> 90 then char_of (n + 32) else c)"

definition lower :: "string \<Rightarrow> string" where
  "lower s = map lower_char s"

definition months_names :: "string list" where
  "months_names =
     map (\<lambda>month. ''_'' @ lower month) (slice_from 10 month_abbr @ slice_range 1 10 month_abbr)"

definition generate_climate_variable_names :: "'v climate_ds \<Rightarrow> string list" where
  "generate_climate_variable_names ds_climate =
     concat (map (\<lambda>climate_var. map (\<lambda>month_name. climate_var @ month_name) months_names)
                 (keys ds_climate))"

text \<open>\<^verbatim>\<open>r.values\<close> of a cell of the \<open>range_date\<close> column: only a date range has the attribute.\<close>

definition values_of :: "cell \<Rightarrow> error + timestamp list" where
  "values_of r = (case r of DatetimeIndex ts \<Rightarrow> Inr ts | _ \<Rightarrow> Inl AttributeError)"

text \<open>
  The selection \<^verbatim>\<open>ds_climate.sel(latitude=lat_da, longitude=lon_da, time=time_da,
  method="nearest")\<close> turned into a table by \<^verbatim>\<open>to_dataframe()\<close>, the coordinate columns
  \<open>latitude\<close> and \<open>longitude\<close> dropped and the row labels made columns by \<^verbatim>\<open>reset_index()\<close>:
  one row per point and time step, points first, holding the point, the time and the
  value of each data variable.
\<close>

definition sel_points_frame ::
  "cell climate_ds \<Rightarrow> rat list \<Rightarrow> rat list \<Rightarrow> timestamp list list \<Rightarrow> cell frame" where
  "sel_points_frame ds lats lons date_array =
     \<lparr>cols = ''points'' # ''time'' # keys ds,
      rows = concat (map (\<lambda>p. map (\<lambda>t. Num (of_nat p) # Ts t #
                                          map (\<lambda>(name, f). f (lats ! p) (lons ! p) t) (data_vars ds))
                                    (date_array ! p))
                         [0..<length date_array])\<rparr>"

text \<open>
  \<^verbatim>\<open>_process_climate_data(ds_climate, df)\<close>.  Building the two-dimensional array of dates
  needs at least one row and ranges of one length; \<^verbatim>\<open>xr.DataArray\<close> raises otherwise.
\<close>

definition process_climate_data :: "cell climate_ds \<Rightarrow> cell frame \<Rightarrow> error + cell frame" where
  "process_climate_data ds_climate df =
     (case get_column ''POINT_LAT'' df of Inl e \<Rightarrow> Inl e | Inr lat_cells \<Rightarrow>
      case get_column ''POINT_LON'' df of Inl e \<Rightarrow> Inl e | Inr lon_cells \<Rightarrow>
      case get_column ''range_date'' df of Inl e \<Rightarrow> Inl e | Inr range_cells \<Rightarrow>
      case map_err values_of range_cells of Inl e \<Rightarrow> Inl e | Inr date_array \<Rightarrow>
      if date_array = [] \<or> \<not> list_all (\<lambda>r. length r = length (hd date_array)) date_array
      then Inl (ValueError ''different number of dimensions on data and dims'')
      else
      case map_err as_num lat_cells of Inl e \<Rightarrow> Inl e | Inr lat_da \<Rightarrow>
      case map_err as_num lon_cells of Inl e \<Rightarrow> Inl e | Inr lon_da \<Rightarrow>
      case drop_columns [''points'', ''time'']
             (sel_points_frame ds_climate lat_da lon_da date_array) of
        Inl e \<Rightarrow> Inl e | Inr climate_df \<Rightarrow>
      let num_cols = length (cols climate_df) in
      case reshape_m1 [12, num_cols] (to_numpy climate_df) of
        Inl e \<Rightarrow> Inl e | Inr reshaped_array \<Rightarrow>
      case reshape_m1 [12 * num_cols] (transpose_021 reshaped_array) of
        Inl e \<Rightarrow> Inl e | Inr result_array \<Rightarrow>
      DataFrame_of_array result_array (generate_climate_variable_names ds_climate))"
subsection \<open>The terrain dataset\<close>

text \<open>
  The geopotential dataset: a grid with a latitude and a longitude coordinate and data
  variables over it, \<open>v ! i ! j\<close> being the value at latitude \<open>i\<close> and longitude \<open>j\<close>
  (\<open>None\<close> for a missing number).
\<close>

record geo_ds =
  geo_latitude :: "rat list"
  geo_longitude :: "rat list"
  geo_vars :: "(string \<times> rat option list list) list"


text \<open>Python's \<^verbatim>\<open>x % m\<close> on numbers: the result has the sign of the divisor.\<close>

definition py_mod :: "rat \<Rightarrow> rat \<Rightarrow> rat" where
  "py_mod x m = x - m * of_int \<lfloor>x / m\<rfloor>"

text \<open>\<^verbatim>\<open>ds.assign_coords(longitude=new)\<close>.\<close>

definition assign_coords_longitude :: "rat list \<Rightarrow> geo_ds \<Rightarrow> geo_ds" where
  "assign_coords_longitude new ds = ds\<lparr>geo_longitude := new\<rparr>"

text \<open>
  \<^verbatim>\<open>ds.sortby("longitude")\<close>: the stable ascending order of the coordinate, applied to the
  coordinate and to every variable along the longitude axis.
\<close>

definition argsort :: "'a::linorder list \<Rightarrow> nat list" where
  "argsort xs = sort_key (\<lambda>i. xs ! i) [0..<length xs]"

definition sortby_longitude :: "geo_ds \<Rightarrow> geo_ds" where
  "sortby_longitude ds =
     (let order = argsort (geo_longitude ds)
      in \<lparr>geo_latitude = geo_latitude ds,
          geo_longitude = map (\<lambda>j. geo_longitude ds ! j) order,
          geo_vars = map (\<lambda>(name, v). (name, map (\<lambda>row. map (\<lambda>j. row ! j) order) v))
                         (geo_vars ds)\<rparr>)"

text \<open>\<^verbatim>\<open>_adjust_longitude(ds)\<close>.\<close>

definition adjust_longitude :: "geo_ds \<Rightarrow> geo_ds" where
  "adjust_longitude ds =
     sortby_longitude
       (assign_coords_longitude (map (\<lambda>lon. py_mod (lon + 180) 360 - 180) (geo_longitude ds)) ds)"

text \<open>
  The index of the coordinate nearest to a query is found by the array library; it is
  the parameter \<open>nearest\<close> (\<open>None\<close> when there is no coordinate to select).
\<close>

definition sel_index :: "(rat list \<Rightarrow> rat \<Rightarrow> nat option) \<Rightarrow> rat list \<Rightarrow> rat \<Rightarrow> error + nat" where
  "sel_index nearest coords q =
     (case nearest coords q of
        None \<Rightarrow> Inl KeyError
      | Some i \<Rightarrow> if i < length coords then Inr i else Inl KeyError)"

text \<open>\<^verbatim>\<open>_crop_geopotential(ds, lat, lon)\<close>: \<^verbatim>\<open>ds.sel(longitude=lon, latitude=lat, method="nearest")\<close>.\<close>

definition crop_geopotential ::
  "(rat list \<Rightarrow> rat \<Rightarrow> nat option) \<Rightarrow> geo_ds \<Rightarrow> rat list \<Rightarrow> rat list \<Rightarrow> error + geo_ds" where
  "crop_geopotential nearest ds lat lon =
     (case map_err (sel_index nearest (geo_latitude ds)) lat of Inl e \<Rightarrow> Inl e | Inr is \<Rightarrow>
      case map_err (sel_index nearest (geo_longitude ds)) lon of Inl e \<Rightarrow> Inl e | Inr js \<Rightarrow>
      Inr \<lparr>geo_latitude = map (\<lambda>i. geo_latitude ds ! i) is,
           geo_longitude = map (\<lambda>j. geo_longitude ds ! j) js,
           geo_vars = map (\<lambda>(name, v). (name, map (\<lambda>i. map (\<lambda>j. v ! i ! j) js) is))
                          (geo_vars ds)\<rparr>)"

text \<open>
  \<^verbatim>\<open>_calculate_geopotential_height(ds)\<close>: \<open>r_earth * (z / g) / (r_earth - z / g)\<close> with
  \<open>r_earth = 6367.47 * 10e3\<close> and \<open>g = 9.80665\<close>.  Where the denominator is zero floating
  point gives an infinity; the model has none and gives the missing number.
\<close>

definition altitude_of :: "rat option \<Rightarrow> rat option" where
  "altitude_of z =
     (case z of
        None \<Rightarrow> None
      | Some v \<Rightarrow>
          (let r_earth = 636747 / 100 * 10000; g = 980665 / 100000; h = v / g
           in if r_earth - h = 0 then None else Some (r_earth * h / (r_earth - h))))"

definition assign_var ::
  "string \<Rightarrow> 'a \<Rightarrow> (string \<times> 'a) list \<Rightarrow> (string \<times> 'a) list" where
  "assign_var name v vars =
     (if name \<in> set (map fst vars) then map (\<lambda>(n, w). if n = name then (n, v) else (n, w)) vars
      else vars @ [(name, v)])"

definition calculate_geopotential_height :: "geo_ds \<Rightarrow> error + geo_ds" where
  "calculate_geopotential_height ds_geopotential =
     (case map_of (geo_vars ds_geopotential) ''z'' of
        None \<Rightarrow> Inl AttributeError
      | Some z \<Rightarrow>
          Inr (ds_geopotential\<lparr>geo_vars :=
                 assign_var ''altitude_climate'' (map (map altitude_of) z)
                   (geo_vars ds_geopotential)\<rparr>))"

definition cell_of :: "rat option \<Rightarrow> cell" where
  "cell_of x = (case x of None \<Rightarrow> NaN | Some v \<Rightarrow> Num v)"

text \<open>
  \<^verbatim>\<open>_process_altitude_data(ds_geopotential, df)\<close>: the grid values nearest to each point,
  as a table with one row per point, the selected coordinates and every variable.
\<close>

definition process_altitude_data ::
  "(rat list \<Rightarrow> rat \<Rightarrow> nat option) \<Rightarrow> geo_ds \<Rightarrow> cell frame \<Rightarrow> error + cell frame" where
  "process_altitude_data nearest ds_geopotential df =
     (case get_column ''POINT_LAT'' df of Inl e \<Rightarrow> Inl e | Inr lat_cells \<Rightarrow>
      case get_column ''POINT_LON'' df of Inl e \<Rightarrow> Inl e | Inr lon_cells \<Rightarrow>
      case map_err as_num lat_cells of Inl e \<Rightarrow> Inl e | Inr lat_da \<Rightarrow>
      case map_err as_num lon_cells of Inl e \<Rightarrow> Inl e | Inr lon_da \<Rightarrow>
      case map_err (sel_index nearest (geo_latitude ds_geopotential)) lat_da of
        Inl e \<Rightarrow> Inl e | Inr is \<Rightarrow>
      case map_err (sel_index nearest (geo_longitude ds_geopotential)) lon_da of
        Inl e \<Rightarrow> Inl e | Inr js \<Rightarrow>
      Inr \<lparr>cols = ''latitude'' # ''longitude'' # map fst (geo_vars ds_geopotential),
           rows = map (\<lambda>(i, j). Num (geo_latitude ds_geopotential ! i) #
                                 Num (geo_longitude ds_geopotential ! j) #
                                 map (\<lambda>(name, v). cell_of (v ! i ! j)) (geo_vars ds_geopotential))
                      (zip is js)\<rparr>)"

subsection \<open>Joining the tables\<close>

text \<open>\<^verbatim>\<open>_combine_dataframes(df, climate_df, altitude_df)\<close>.\<close>

definition combine_dataframes ::
  "cell frame \<Rightarrow> cell frame \<Rightarrow> cell frame \<Rightarrow> error + cell frame" where
  "combine_dataframes df climate_df altitude_df =
     (case drop_columns [''range_date''] df of Inl e \<Rightarrow> Inl e | Inr df1 \<Rightarrow>
      case drop_columns [''latitude'', ''longitude'', ''z''] altitude_df of
        Inl e \<Rightarrow> Inl e | Inr altitude_df1 \<Rightarrow>
      let df2 = concat_axis1 NaN
                  [reset_index_drop df1, reset_index_drop climate_df, reset_index_drop altitude_df1];
          df3 = rename_column ''altitude_climate'' ''ALTITUDE_CLIMATE'' df2
      in dropna_subset isna ''ALTITUDE_CLIMATE'' df3)"

text \<open>Subtraction of two cells of numeric columns; a missing number gives a missing number.\<close>

definition cell_sub :: "cell \<Rightarrow> cell \<Rightarrow> error + cell" where
  "cell_sub a b =
     (case (a, b) of
        (Num x, Num y) \<Rightarrow> Inr (Num (x - y))
      | (Num x, NaN) \<Rightarrow> Inr NaN
      | (NaN, Num y) \<Rightarrow> Inr NaN
      | (NaN, NaN) \<Rightarrow> Inr NaN
      | _ \<Rightarrow> Inl TypeError)"

text \<open>\<^verbatim>\<open>_calculate_elevation_difference(df)\<close>.\<close>

definition calculate_elevation_difference :: "cell frame \<Rightarrow> error + cell frame" where
  "calculate_elevation_difference df =
     (case get_column ''ALTITUDE_CLIMATE'' df of Inl e \<Rightarrow> Inl e | Inr altitude \<Rightarrow>
      case get_column ''POINT_ELEVATION'' df of Inl e \<Rightarrow> Inl e | Inr elevation \<Rightarrow>
      case map_err (\<lambda>(a, b). cell_sub a b) (zip altitude elevation) of
        Inl e \<Rightarrow> Inl e
      | Inr difference \<Rightarrow> set_column ''ELEVATION_DIFFERENCE'' difference df)"

text \<open>
  \<^verbatim>\<open>get_climate_features(df, output_fname, climate_data, geopotential_data, change_units)\<close>.
  The file system is a parameter: whether each path exists and the dataset it loads.
  Writing the result to \<open>output_fname\<close> does not change it and is left out.
\<close>

definition get_climate_features ::
  "(rat list \<Rightarrow> rat \<Rightarrow> nat option) \<Rightarrow> bool \<Rightarrow> bool \<Rightarrow> rat option list climate_ds \<Rightarrow> geo_ds \<Rightarrow>
   cell frame \<Rightarrow> bool \<Rightarrow> error + cell frame" where
  "get_climate_features nearest climate_exists geopotential_exists loaded_climate ds_geopotential
       df change_units =
     (if \<not> climate_exists \<or> \<not> geopotential_exists then Inl FileNotFoundError
      else
      case (if change_units then convert_t2m loaded_climate else Inr loaded_climate) of
        Inl e \<Rightarrow> Inl e | Inr ds_climate0 \<Rightarrow>
      let lat = latitude ds_climate0; lon = longitude ds_climate0;
          ds_180 = adjust_longitude ds_geopotential in
      case crop_geopotential nearest ds_180 lat lon of
        Inl e \<Rightarrow> Inl e | Inr ds_geopotential_cropped \<Rightarrow>
      case calculate_geopotential_height ds_geopotential_cropped of
        Inl e \<Rightarrow> Inl e | Inr ds_geopotential_metric \<Rightarrow>
      let ds_climate = reduce_nansum_expver ds_climate0 in
      case add_date_range df of Inl e \<Rightarrow> Inl e | Inr df1 \<Rightarrow>
      case process_climate_data ds_climate df1 of Inl e \<Rightarrow> Inl e | Inr climate_df \<Rightarrow>
      case process_altitude_data nearest ds_geopotential_metric df1 of
        Inl e \<Rightarrow> Inl e | Inr altitude_df \<Rightarrow>
      case combine_dataframes df1 climate_df altitude_df of Inl e \<Rightarrow> Inl e | Inr df2 \<Rightarrow>
      calculate_elevation_difference df2)"

section \<open>The dataset splitter\<close>

subsection \<open>Library: grouped and shuffled splits\<close>

text \<open>
  The random generator of the library is a parameter: \<open>rng seed n\<close> is the shuffle of
  \<open>0..n-1\<close> that a generator seeded with \<open>seed\<close> produces first
  (\<^verbatim>\<open>rng.permutation(n)\<close>, or \<^verbatim>\<open>rng.shuffle\<close> of \<^verbatim>\<open>arange(n)\<close>).
\<close>

type_synonym rng = "int \<Rightarrow> nat \<Rightarrow> nat list"

text \<open>
  \<^verbatim>\<open>np.unique(groups, return_inverse=True)\<close>: the sorted distinct values, and for each
  element the position of its value among them.
\<close>

definition unique :: "'g::linorder list \<Rightarrow> 'g list" where
  "unique groups = sort (remdups groups)"

definition unique_inverse :: "'g::linorder list \<Rightarrow> nat list" where
  "unique_inverse groups = map (\<lambda>g. length (takeWhile (\<lambda>c. c \<noteq> g) (unique groups))) groups"

text \<open>\<^verbatim>\<open>np.flatnonzero(bs)\<close>: the positions that hold \<open>True\<close>, ascending.\<close>

definition flatnonzero :: "bool list \<Rightarrow> nat list" where
  "flatnonzero bs = filter (\<lambda>i. bs ! i) [0..<length bs]"

text \<open>
  The sizes of a shuffle split for a fractional \<open>test_size\<close>: \<open>ceil(test_size * n)\<close> test
  samples and the rest for training; \<open>ValueError\<close> for a fraction outside \<open>(0, 1)\<close> and for
  an empty training set.
\<close>

definition validate_shuffle_split :: "nat \<Rightarrow> rat \<Rightarrow> error + (nat \<times> nat)" where
  "validate_shuffle_split n_samples test_size =
     (if test_size \<le> 0 \<or> 1 \<le> test_size
      then Inl (ValueError ''test_size should be a float in the (0, 1) range'')
      else let n_test = nat \<lceil>test_size * of_nat n_samples\<rceil>; n_train = n_samples - n_test
           in if n_train = 0 then Inl (ValueError ''the resulting train set will be empty'')
              else Inr (n_train, n_test))"

text \<open>
  \<^verbatim>\<open>next(GroupShuffleSplit(n_splits=1, test_size, random_state).split(X, y, groups))\<close>:
  the distinct groups are shuffled, the first \<open>n_test\<close> of them go to the test side and
  the next \<open>n_train\<close> to the training side; a row goes where its group goes.
\<close>

definition group_shuffle_split ::
  "rng \<Rightarrow> int \<Rightarrow> rat \<Rightarrow> 'g::linorder list \<Rightarrow> error + (nat list \<times> nat list)" where
  "group_shuffle_split rng random_state test_size groups =
     (let classes = unique groups; group_indices = unique_inverse groups
      in case validate_shuffle_split (length classes) test_size of
           Inl e \<Rightarrow> Inl e
         | Inr (n_train, n_test) \<Rightarrow>
             (let permutation = rng random_state (length classes);
                  ind_test = take n_test permutation;
                  ind_train = take n_train (drop n_test permutation);
                  train = flatnonzero (map (\<lambda>gi. gi \<in> set ind_train) group_indices);
                  test = flatnonzero (map (\<lambda>gi. gi \<in> set ind_test) group_indices)
              in Inr (train, test)))"

text \<open>
  Every k-fold splitter of the library refuses fewer than two folds when it is built,
  and more folds than samples when it splits.  It yields, for each fold, the rows outside
  the fold and the rows of the fold, both ascending.
\<close>

definition check_n_splits :: "int \<Rightarrow> nat \<Rightarrow> error + nat" where
  "check_n_splits n_splits n_samples =
     (if n_splits \<le> 1
      then Inl (ValueError ''k-fold cross-validation requires at least one train/test split'')
      else if int n_samples < n_splits
      then Inl (ValueError ''Cannot have number of splits greater than the number of samples'')
      else Inr (nat n_splits))"

definition split_of_test :: "nat \<Rightarrow> (nat \<Rightarrow> bool) \<Rightarrow> nat list \<times> nat list" where
  "split_of_test n_samples in_test =
     (let test_mask = map in_test [0..<n_samples]
      in (flatnonzero (map Not test_mask), flatnonzero test_mask))"

text \<open>
  \<^verbatim>\<open>KFold(n_splits, shuffle=True, random_state).split(X, y)\<close>: the shuffled rows are cut
  into consecutive folds, the first \<open>n mod k\<close> of them one row longer.
\<close>

fun kfold_test_folds :: "nat list \<Rightarrow> nat list \<Rightarrow> nat list list" where
  "kfold_test_folds indices [] = []"
| "kfold_test_folds indices (fold_size # fold_sizes) =
     take fold_size indices # kfold_test_folds (drop fold_size indices) fold_sizes"

definition kfold_sizes :: "nat \<Rightarrow> nat \<Rightarrow> nat list" where
  "kfold_sizes n_samples k =
     map (\<lambda>f. n_samples div k + (if f < n_samples mod k then 1 else 0)) [0..<k]"

definition kfold_split :: "rng \<Rightarrow> int \<Rightarrow> int \<Rightarrow> nat \<Rightarrow> error + (nat list \<times> nat list) list" where
  "kfold_split rng random_state n_splits n_samples =
     (case check_n_splits n_splits n_samples of
        Inl e \<Rightarrow> Inl e
      | Inr k \<Rightarrow>
          (let indices = rng random_state n_samples
           in Inr (map (\<lambda>test_index. split_of_test n_samples (\<lambda>i. i \<in> set test_index))
                       (kfold_test_folds indices (kfold_sizes n_samples k)))))"

text \<open>
  \<^verbatim>\<open>GroupKFold(n_splits).split(X, y, groups)\<close>: the groups, largest first, are given one
  after the other to the fold that is lightest so far; fold \<open>f\<close> validates on the rows
  whose group was given to \<open>f\<close>.  More folds than groups is a \<open>ValueError\<close>.
\<close>

definition bincount :: "nat list \<Rightarrow> nat \<Rightarrow> nat list" where
  "bincount xs n = map (\<lambda>c. length (filter (\<lambda>x. x = c) xs)) [0..<n]"

definition argmin :: "nat list \<Rightarrow> nat" where
  "argmin xs = length (takeWhile (\<lambda>x. x \<noteq> min_list xs) xs)"

fun distribute :: "(nat \<times> nat) list \<Rightarrow> nat list \<times> nat list \<Rightarrow> nat list \<times> nat list" where
  "distribute [] state = state"
| "distribute ((g, weight) # rest) (n_samples_per_fold, group_to_fold) =
     (let lightest_fold = argmin n_samples_per_fold
      in distribute rest
           (n_samples_per_fold[lightest_fold := n_samples_per_fold ! lightest_fold + weight],
            group_to_fold[g := lightest_fold]))"

definition group_kfold_split ::
  "int \<Rightarrow> nat \<Rightarrow> 'g::linorder list \<Rightarrow> error + (nat list \<times> nat list) list" where
  "group_kfold_split n_splits n_samples groups =
     (case check_n_splits n_splits n_samples of
        Inl e \<Rightarrow> Inl e
      | Inr k \<Rightarrow>
          (let group_indices = unique_inverse groups; n_groups = length (unique groups)
           in if n_groups < k
              then Inl (ValueError ''Cannot have number of splits greater than the number of groups'')
              else
                (let n_samples_per_group = bincount group_indices n_groups;
                     indices = rev (argsort n_samples_per_group);
                     group_to_fold = snd (distribute
                        (map (\<lambda>g. (g, n_samples_per_group ! g)) indices)
                        (replicate k 0, replicate n_groups 0));
                     fold_of = map (\<lambda>gi. group_to_fold ! gi) group_indices
                 in Inr (map (\<lambda>f. split_of_test n_samples (\<lambda>i. fold_of ! i = f)) [0..<k]))))"

subsection \<open>The DataLoader class\<close>

text \<open>
  The object's attributes.  A table of the splitter has cells of any ordered type (the
  library sorts the group keys).  An iterator over indices is modelled by their list.
\<close>

record 'c dataloader =
  data :: "'c frame"
  n_splits :: "int option"
  random_seed :: int
  test_size :: "rat option"
  cv_split :: "(nat list \<times> nat list) list option"
  train_indices :: "nat list option"
  test_indices :: "nat list option"

text \<open>\<^verbatim>\<open>DataLoader(data, random_seed)\<close>.\<close>

definition DataLoader_init :: "'c frame \<Rightarrow> int \<Rightarrow> 'c dataloader" where
  "DataLoader_init d seed =
     \<lparr>data = d, n_splits = None, random_seed = seed, test_size = None, cv_split = None,
      train_indices = None, test_indices = None\<rparr>"

text \<open>\<^verbatim>\<open>_prepare_data_for_cv(train_data)\<close>.\<close>

definition prepare_data_for_cv ::
  "'c frame \<Rightarrow> error + ('c frame \<times> 'c list \<times> 'c list \<times> 'c list)" where
  "prepare_data_for_cv train_data =
     (case drop_columns [''YEAR'', ''POINT_BALANCE'', ''RGIId'', ''ID''] train_data of
        Inl e \<Rightarrow> Inl e | Inr X \<Rightarrow>
      case get_column ''POINT_BALANCE'' train_data of Inl e \<Rightarrow> Inl e | Inr y \<Rightarrow>
      case get_column ''RGIId'' train_data of Inl e \<Rightarrow> Inl e | Inr glacier_ids \<Rightarrow>
      case get_column ''ID'' train_data of Inl e \<Rightarrow> Inl e | Inr stake_meas_id \<Rightarrow>
      Inr (X, y, glacier_ids, stake_meas_id))"

text \<open>\<^verbatim>\<open>np.intersect1d(a, b)\<close>: the sorted distinct values that are in both.\<close>

definition intersect1d :: "'g::linorder list \<Rightarrow> 'g list \<Rightarrow> 'g list" where
  "intersect1d a b = unique (filter (\<lambda>x. x \<in> set b) a)"

text \<open>
  \<^verbatim>\<open>set_train_test_split(test_size, shuffle)\<close>.  A method returns its result, or the
  exception it raised, together with the object as the call left it.
\<close>

definition set_train_test_split ::
  "rng \<Rightarrow> 'c::linorder dataloader \<Rightarrow> rat \<Rightarrow> bool \<Rightarrow>
   (error + (nat list \<times> nat list)) \<times> 'c dataloader" where
  "set_train_test_split rng self test_size' shuffle =
     (let self1 = self\<lparr>test_size := Some test_size'\<rparr>;
          indices = [0..<length (rows (data self1))]
      in case prepare_data_for_cv (data self1) of
           Inl e \<Rightarrow> (Inl e, self1)
         | Inr (X, y, glacier_ids, stake_meas_id) \<Rightarrow>
      case group_shuffle_split rng (random_seed self1) test_size' stake_meas_id of
           Inl e \<Rightarrow> (Inl e, self1)
         | Inr (train_indices', test_indices') \<Rightarrow>
      let train_stake_meas_id = map (\<lambda>i. stake_meas_id ! i) train_indices';
          test_stake_meas_id = map (\<lambda>i. stake_meas_id ! i) test_indices'
      in if length (intersect1d train_stake_meas_id test_stake_meas_id) \<noteq> 0
         then (Inl AssertionError, self1)
         else (let self2 = self1\<lparr>train_indices := Some train_indices',
                                  test_indices := Some test_indices'\<rparr>
               in (Inr (train_indices', test_indices'), self2)))"

text \<open>\<^verbatim>\<open>get_train_test_indices()\<close>.\<close>

definition get_train_test_indices :: "'c dataloader \<Rightarrow> nat list option \<times> nat list option" where
  "get_train_test_indices self = (train_indices self, test_indices self)"

text \<open>\<^verbatim>\<open>_validate_train_iterator()\<close>.\<close>

definition not_split_message :: string where
  "not_split_message = ''train_iterator is None. Call set_train_test_split first.''"

definition validate_train_iterator :: "'c dataloader \<Rightarrow> error + unit" where
  "validate_train_iterator self =
     (if train_indices self = None then Inl (ValueError not_split_message) else Inr ())"

text \<open>
  \<^verbatim>\<open>df.iloc[indices]\<close>: the rows at the given positions, \<open>IndexError\<close> for a position
  outside the table.  \<^verbatim>\<open>_get_train_data()\<close> reads \<open>train_indices\<close>.
\<close>

definition iloc :: "'c frame \<Rightarrow> nat list \<Rightarrow> error + 'c frame" where
  "iloc df indices =
     (if list_all (\<lambda>i. i < length (rows df)) indices
      then Inr (df\<lparr>rows := map (\<lambda>i. rows df ! i) indices\<rparr>)
      else Inl IndexError)"

definition get_train_data :: "'c dataloader \<Rightarrow> error + 'c frame" where
  "get_train_data self =
     (case train_indices self of
        None \<Rightarrow> Inl TypeError
      | Some train_indices' \<Rightarrow> iloc (data self) train_indices')"

text \<open>\<^verbatim>\<open>_create_group_kfold_splits(X, y, glacier_ids, stake_meas_id, type_fold)\<close>.\<close>

definition create_group_kfold_splits ::
  "rng \<Rightarrow> 'c::linorder dataloader \<Rightarrow> 'c frame \<Rightarrow> 'c list \<Rightarrow> 'c list \<Rightarrow> 'c list \<Rightarrow> string \<Rightarrow>
   error + (nat list \<times> nat list) list" where
  "create_group_kfold_splits rng self X y glacier_ids stake_meas_id type_fold =
     (case n_splits self of
        None \<Rightarrow> Inl TypeError
      | Some k \<Rightarrow>
          if type_fold = ''group-rgi''
          then group_kfold_split k (length (rows X)) glacier_ids
          else if type_fold = ''group-meas-id''
          then group_kfold_split k (length (rows X)) stake_meas_id
          else kfold_split rng (random_seed self) k (length (rows X)))"

text \<open>\<^verbatim>\<open>get_cv_split(n_splits, type_fold)\<close>.\<close>

definition get_cv_split ::
  "rng \<Rightarrow> 'c::linorder dataloader \<Rightarrow> int \<Rightarrow> string \<Rightarrow>
   (error + (nat list \<times> nat list) list) \<times> 'c dataloader" where
  "get_cv_split rng self n_splits' type_fold =
     (let self1 = self\<lparr>n_splits := Some n_splits'\<rparr>
      in case validate_train_iterator self1 of
           Inl e \<Rightarrow> (Inl e, self1)
         | Inr _ \<Rightarrow>
      case get_train_data self1 of
           Inl e \<Rightarrow> (Inl e, self1)
         | Inr train_data \<Rightarrow>
      case prepare_data_for_cv train_data of
           Inl e \<Rightarrow> (Inl e, self1)
         | Inr (X, y, glacier_ids, stake_meas_id) \<Rightarrow>
      case create_group_kfold_splits rng self1 X y glacier_ids stake_meas_id type_fold of
           Inl e \<Rightarrow> (Inl e, self1)
         | Inr splits \<Rightarrow> (Inr splits, self1\<lparr>cv_split := Some splits\<rparr>))"
section \<open>Example inputs\<close>

text \<open>
  A splitter table with six rows and three stake measurements on three glaciers, and a
  generator that reverses \<open>0..n-1\<close>.
\<close>

definition ex_table :: "int frame" where
  "ex_table =
     \<lparr>cols = [''ID'', ''RGIId'', ''YEAR'', ''POINT_BALANCE'', ''POINT_ELEVATION''],
      rows = [[1, 10, 2000, 5, 7], [1, 10, 2001, 5, 7], [2, 20, 2000, 5, 7],
              [3, 30, 2000, 5, 7], [3, 30, 2001, 5, 7], [3, 30, 2002, 5, 7]]\<rparr>"

definition ex_rng :: rng where
  "ex_rng seed n = rev [0..<n]"

definition ex_loader :: "int dataloader" where
  "ex_loader = DataLoader_init ex_table 42"

definition ex_split_loader :: "int dataloader" where
  "ex_split_loader = snd (set_train_test_split ex_rng ex_loader (1 / 3) True)"

text \<open>The training subset of the example after the split: its first three rows.\<close>

definition ex_train_data :: "int frame" where
  "ex_train_data =
     \<lparr>cols = [''ID'', ''RGIId'', ''YEAR'', ''POINT_BALANCE'', ''POINT_ELEVATION''],
      rows = [[1, 10, 2000, 5, 7], [1, 10, 2001, 5, 7], [2, 20, 2000, 5, 7]]\<rparr>"

text \<open>A terrain grid of two latitudes and three longitudes already in \<open>[-180, 180)\<close>.\<close>

definition ex_geo :: geo_ds where
  "ex_geo =
     \<lparr>geo_latitude = [47, 46], geo_longitude = [-180, 15 / 2, 359 / 2],
      geo_vars = [(''z'', [[Some 9806, Some 0, None], [Some 0, None, Some 98066]])]\<rparr>"

text \<open>The same grid with its longitudes in \<open>[0, 360)\<close>.\<close>

definition ex_geo_360 :: geo_ds where
  "ex_geo_360 =
     \<lparr>geo_latitude = [47, 46], geo_longitude = [15 / 2, 359 / 2, 180],
      geo_vars = [(''z'', [[Some 0, None, Some 9806], [None, Some 98066, Some 0]])]\<rparr>"

text \<open>
  A climate dataset with two variables and two experiment versions, of which the first
  is populated.  Its time steps are the month ends: looked up at a timestamp of month
  \<open>m\<close>, the temperature is \<open>273.15 + m\<close> and the precipitation \<open>m / 100\<close>.
\<close>

definition ex_climate :: "rat option list climate_ds" where
  "ex_climate =
     \<lparr>latitude = [47, 46], longitude = [15 / 2, 8],
      data_vars =
        [(''t2m'', \<lambda>la lo t. [Some (27315 / 100 + of_nat (ts_month t)), None]),
         (''tp'', \<lambda>la lo t. [Some (of_nat (ts_month t) / 100), None])]\<rparr>"

text \<open>A nearest-coordinate lookup: the first coordinate at the least distance.\<close>

definition ex_nearest :: "rat list \<Rightarrow> rat \<Rightarrow> nat option" where
  "ex_nearest coords q =
     (if coords = [] then None
      else Some (length (takeWhile (\<lambda>c. \<bar>c - q\<bar> \<noteq> min_list (map (\<lambda>c. \<bar>c - q\<bar>) coords)) coords)))"


definition ex_records_missing_year :: "cell frame" where
  "ex_records_missing_year =
     \<lparr>cols = [''ID'', ''RGIId'', ''POINT_LAT'', ''POINT_LON'', ''POINT_ELEVATION'', ''YEAR'',
              ''POINT_BALANCE''],
      rows = [[Str ''s1'', Str ''RGI60-11.1'', Num 47, Num 8, Num 1500, Num 2020, Num (- 1)],
              [Str ''s2'', Str ''RGI60-11.2'', Num 46, Num (15 / 2), Num 400, NaN, Num 2]]\<rparr>"




definition ex_enriched :: "cell frame" where
  "ex_enriched =
     \<lparr>cols = [''ID'', ''RGIId'', ''POINT_LAT'', ''POINT_LON'', ''POINT_ELEVATION'', ''YEAR'',
              ''POINT_BALANCE'',
              ''t2m_oct'', ''t2m_nov'', ''t2m_dec'', ''t2m_jan'', ''t2m_feb'', ''t2m_mar'',
              ''t2m_apr'', ''t2m_may'', ''t2m_jun'', ''t2m_jul'', ''t2m_aug'', ''t2m_sep'',
              ''tp_oct'', ''tp_nov'', ''tp_dec'', ''tp_jan'', ''tp_feb'', ''tp_mar'',
              ''tp_apr'', ''tp_may'', ''tp_jun'', ''tp_jul'', ''tp_aug'', ''tp_sep'',
              ''ALTITUDE_CLIMATE'', ''ELEVATION_DIFFERENCE''],
      rows = [[Str ''s1'', Str ''RGI60-11.1'', Num 47, Num 8, Num 1500, Num 2020, Num (- 1),
               Num 9, Num 10, Num 11, Num 12, Num 1, Num 2, Num 3, Num 4, Num 5, Num 6,
               Num 7, Num 8,
               Num (9 / 100), Num (1 / 10), Num (11 / 100), Num (3 / 25), Num (1 / 100),
               Num (1 / 50), Num (3 / 100), Num (1 / 25), Num (1 / 20), Num (3 / 50),
               Num (7 / 100), Num (2 / 25),
               Num 0, Num (- 1500)]]\<rparr>"

section \<open>Lemmas about lists and tables\<close>



lemma index_of_Some: "index_of x xs = Some k \<Longrightarrow> k < length xs \<and> xs ! k = x"
  by (induction xs arbitrary: k) (auto split: if_splits)

lemma index_of_None: "index_of x xs = None \<longleftrightarrow> x \<notin> set xs"
  by (induction xs) auto

lemma index_of_append_in: "x \<in> set xs \<Longrightarrow> index_of x (xs @ ys) = index_of x xs"
  by (induction xs) auto

lemma index_of_append_new: "x \<notin> set xs \<Longrightarrow> index_of x (xs @ [x]) = Some (length xs)"
  by (induction xs) auto

lemma map_err_Inr:
  "map_err f xs = Inr ys \<Longrightarrow> length ys = length xs \<and> (\<forall>i<length xs. f (xs ! i) = Inr (ys ! i))"
proof (induction xs arbitrary: ys)
  case Nil then show ?case by simp
next
  case (Cons x xs)
  then show ?case
    by (auto split: sum.splits simp: nth_Cons split: nat.splits)
qed






lemma transpose_021_shape:
  "shape (transpose_021 \<lparr>shape = [n, d1, d2], flat = xs\<rparr>) = [n, d2, d1]"
  by (simp add: transpose_021_def)


lemma wf_frame_rect: "wf_frame df \<Longrightarrow> rectangular df"
  by (simp add: wf_frame_def)

lemma set_column_length:
  "set_column name vals df = Inr df' \<Longrightarrow> length (rows df') = length (rows df) \<and> length vals = length (rows df)"
  by (auto simp: set_column_def split: if_splits option.splits)


lemma set_column_get_same:
  assumes "rectangular df" and "set_column name vals df = Inr df'"
  shows "get_column name df' = Inr vals"
proof -
  have len: "length vals = length (rows df)"
    using assms(2) by (simp add: set_column_length)
  have r: "\<And>i. i < length (rows df) \<Longrightarrow> length (rows df ! i) = length (cols df)"
    using assms(1) by (simp add: rectangular_def list_all_length)
  show ?thesis
  proof (cases "index_of name (cols df)")
    case None
    then have d: "df' = \<lparr>cols = cols df @ [name], rows = map2 (\<lambda>r v. r @ [v]) (rows df) vals\<rparr>"
      using assms(2) len by (simp add: set_column_def)
    have "index_of name (cols df @ [name]) = Some (length (cols df))"
      using None by (simp add: index_of_append_new index_of_None)
    moreover have "map (\<lambda>r. r ! length (cols df)) (map2 (\<lambda>r v. r @ [v]) (rows df) vals) = vals"
      using len r by (intro nth_equalityI) (simp_all add: nth_append)
    ultimately show ?thesis by (simp add: get_column_def d)
  next
    case (Some k)
    then have d: "df' = \<lparr>cols = cols df, rows = map2 (\<lambda>r v. r[k := v]) (rows df) vals\<rparr>"
      using assms(2) len by (simp add: set_column_def)
    have k: "k < length (cols df)" using Some by (simp add: index_of_Some)
    have "map (\<lambda>r. r ! k) (map2 (\<lambda>r v. r[k := v]) (rows df) vals) = vals"
      using len r k by (intro nth_equalityI) simp_all
    then show ?thesis using Some by (simp add: get_column_def d)
  qed
qed

lemma set_column_get_other:
  assumes "rectangular df" and "set_column name vals df = Inr df'" and "other \<noteq> name"
  shows "get_column other df' = get_column other df"
proof -
  have len: "length vals = length (rows df)"
    using assms(2) by (simp add: set_column_length)
  have r: "\<And>i. i < length (rows df) \<Longrightarrow> length (rows df ! i) = length (cols df)"
    using assms(1) by (simp add: rectangular_def list_all_length)
  show ?thesis
  proof (cases "index_of name (cols df)")
    case None
    then have d: "df' = \<lparr>cols = cols df @ [name], rows = map2 (\<lambda>r v. r @ [v]) (rows df) vals\<rparr>"
      using assms(2) len by (simp add: set_column_def)
    show ?thesis
    proof (cases "index_of other (cols df)")
      case None
      then have "index_of other (cols df @ [name]) = None"
        using assms(3) by (simp add: index_of_None)
      with None show ?thesis by (simp add: get_column_def d)
    next
      case (Some j)
      then have j: "j < length (cols df)" by (simp add: index_of_Some)
      have "other \<in> set (cols df)" using Some by (metis index_of_None option.distinct(1))
      then have "index_of other (cols df @ [name]) = Some j"
        using Some by (simp add: index_of_append_in)
      moreover have "map (\<lambda>r. r ! j) (map2 (\<lambda>r v. r @ [v]) (rows df) vals) = map (\<lambda>r. r ! j) (rows df)"
        using len r j by (intro nth_equalityI) (simp_all add: nth_append)
      ultimately show ?thesis using Some by (simp add: get_column_def d)
    qed
  next
    case (Some k)
    then have d: "df' = \<lparr>cols = cols df, rows = map2 (\<lambda>r v. r[k := v]) (rows df) vals\<rparr>"
      using assms(2) len by (simp add: set_column_def)
    show ?thesis
    proof (cases "index_of other (cols df)")
      case None
      then show ?thesis by (simp add: get_column_def d)
    next
      case (Some j)
      have "j \<noteq> k" using Some \<open>index_of name (cols df) = Some k\<close> assms(3) index_of_Some by metis
      then have "map (\<lambda>r. r ! j) (map2 (\<lambda>r v. r[k := v]) (rows df) vals) = map (\<lambda>r. r ! j) (rows df)"
        using len by (intro nth_equalityI) simp_all
      then show ?thesis using Some by (simp add: get_column_def d)
    qed
  qed
qed

lemma get_column_length: "get_column name df = Inr xs \<Longrightarrow> length xs = length (rows df)"
  by (auto simp: get_column_def split: option.splits)

lemma iloc_Inr: "iloc df idx = Inr d \<Longrightarrow> length (rows d) = length idx \<and> cols d = cols df"
  by (auto simp: iloc_def split: if_splits)

lemma drop_columns_Inr:
  "drop_columns names df = Inr X \<Longrightarrow>
     length (rows X) = length (rows df) \<and> cols X = filter (\<lambda>c. c \<notin> set names) (cols df)"
  by (auto simp: drop_columns_def split: if_splits)






lemma date_range_hydrological:
  "date_range_ME (Timestamp (Y - 1) 9 1) (Timestamp Y 9 1) =
     [month_end (Y - 1) 9, month_end (Y - 1) 10, month_end (Y - 1) 11, month_end (Y - 1) 12,
      month_end Y 1, month_end Y 2, month_end Y 3, month_end Y 4, month_end Y 5,
      month_end Y 6, month_end Y 7, month_end Y 8]"
  by (simp add: date_range_ME_def month_end_def days_in_month_def ts_le_def)

lemma create_date_range_values:
  assumes "create_date_range y = Inr r" and "values_of r = Inr ts"
  shows "\<exists>v. y = Num v \<and> r = DatetimeIndex ts \<and> length ts = 12
           \<and> ts = date_range_ME (Timestamp (py_int v - 1) 9 1) (Timestamp (py_int v) 9 1)"
proof -
  from assms(2) have r: "r = DatetimeIndex ts"
    by (cases r) (simp_all add: values_of_def)
  from assms(1) r obtain v where v: "y = Num v"
    and ts: "ts = date_range_ME (Timestamp (py_int v - 1) 9 1) (Timestamp (py_int v) 9 1)"
    by (cases y) (simp_all add: create_date_range_def isna_def Let_def split: if_splits)
  have "length ts = 12"
    unfolding ts date_range_hydrological by simp
  with r v ts show ?thesis by blast
qed





lemma add_date_range_facts:
  assumes wf: "wf_frame df" and adr: "add_date_range df = Inr df1"
  shows "\<exists>years ranges. get_column ''YEAR'' df = Inr years
           \<and> map_err create_date_range years = Inr ranges
           \<and> set_column ''range_date'' ranges df = Inr df1
           \<and> get_column ''range_date'' df1 = Inr ranges
           \<and> length (rows df1) = length (rows df)"
proof -
  from adr obtain years ranges where y: "get_column ''YEAR'' df = Inr years"
    and r: "map_err create_date_range years = Inr ranges"
    and s: "set_column ''range_date'' ranges df = Inr df1"
    by (auto simp: add_date_range_def split: sum.splits)
  from set_column_get_same[OF wf_frame_rect[OF wf] s] set_column_length[OF s] y r s show ?thesis by blast
qed


lemma process_climate_data_row_year:
  assumes wf: "wf_frame df"
      and lat: "get_column ''POINT_LAT'' df = Inr lats"
      and lon: "get_column ''POINT_LON'' df = Inr lons"
      and yr: "get_column ''YEAR'' df = Inr years"
      and adr: "add_date_range df = Inr df1"
      and pcd: "process_climate_data ds df1 = Inr res"
      and i: "i < length (rows df)"
  shows "\<exists>v. years ! i = Num v"
proof -
  from add_date_range_facts[OF wf adr] yr obtain ranges
    where mr: "map_err create_date_range years = Inr ranges"
      and g_rd: "get_column ''range_date'' df1 = Inr ranges"
    by auto
  from pcd g_rd obtain date_array where mv: "map_err values_of ranges = Inr date_array"
    by (auto simp: process_climate_data_def split: sum.splits)
  have len_years: "length years = length (rows df)" using yr by (rule get_column_length)
  have 1: "create_date_range (years ! i) = Inr (ranges ! i)"
    using map_err_Inr[OF mr] i len_years by simp
  have 2: "values_of (ranges ! i) = Inr (date_array ! i)"
    using map_err_Inr[OF mv] map_err_Inr[OF mr] i len_years by simp
  from create_date_range_values[OF 1 2] show ?thesis by blast
qed

section \<open>Properties of the extractor\<close>

subsection \<open>Hydrological date range\<close>


subsection \<open>Longitude normalisation\<close>





text \<open>The grid with longitudes in \<open>[0, 360)\<close> is brought to that normal form.\<close>

lemma adjust_longitude_example: "adjust_longitude ex_geo_360 = ex_geo"
  by code_simp

subsection \<open>Names and contents of the climate columns\<close>







subsection \<open>A record without a year\<close>

text \<open>
  Claim C4 says that a record whose year is missing is excluded before the reshape and
  that the extractor still produces the enriched table of the other records.  The code
  does not do this: \<open>create_date_range\<close> answers \<open>None\<close> for the missing year,
  \<open>add_date_range\<close> keeps the row with that \<open>None\<close>, and \<open>process_climate_data\<close> raises
  \<open>AttributeError\<close> when it reads \<^verbatim>\<open>r.values\<close> of it.  On the two example measurements with
  the year of the second one missing, the extractor raises and returns no table.
\<close>

theorem get_climate_features_missing_year_raises:
  "get_column ''YEAR'' ex_records_missing_year = Inr [Num 2020, NaN]
   \<and> create_date_range NaN = Inr PyNone
   \<and> get_climate_features ex_nearest True True ex_climate ex_geo_360 ex_records_missing_year True
       = Inl AttributeError"
  by code_simp

theorem get_climate_features_missing_year_raises_witness:
  "get_climate_features ex_nearest True True ex_climate ex_geo_360 ex_records_missing_year True
     \<noteq> Inr ex_enriched"
  using get_climate_features_missing_year_raises by simp

text \<open>
  This is so for every table: when the year of some record is missing, the extractor
  returns no table, whatever the datasets are.
\<close>

lemma get_climate_features_missing_year_never_returns:
  assumes wf: "wf_frame df"
      and yr: "get_column ''YEAR'' df = Inr years"
      and i: "i < length years" and na: "isna (years ! i)"
  shows "get_climate_features nearest climate_exists geopotential_exists loaded_climate
           ds_geopotential df change_units \<noteq> Inr out"
proof
  assume "get_climate_features nearest climate_exists geopotential_exists loaded_climate
           ds_geopotential df change_units = Inr out"
  then obtain ds df1 climate_df where adr: "add_date_range df = Inr df1"
    and pcd: "process_climate_data ds df1 = Inr climate_df"
    by (auto simp: get_climate_features_def Let_def split: if_splits sum.splits)
  from add_date_range_facts[OF wf adr] obtain ranges
    where sc: "set_column ''range_date'' ranges df = Inr df1" by blast
  from pcd obtain lats lons where "get_column ''POINT_LAT'' df1 = Inr lats"
    and "get_column ''POINT_LON'' df1 = Inr lons"
    by (auto simp: process_climate_data_def split: sum.splits)
  then have lat: "get_column ''POINT_LAT'' df = Inr lats"
    and lon: "get_column ''POINT_LON'' df = Inr lons"
    using set_column_get_other[OF wf_frame_rect[OF wf] sc, of "''POINT_LAT''"]
      set_column_get_other[OF wf_frame_rect[OF wf] sc, of "''POINT_LON''"] by simp_all
  have "i < length (rows df)" using i get_column_length[OF yr] by simp
  from process_climate_data_row_year[OF wf lat lon yr adr pcd this]
  obtain v where "years ! i = Num v" by blast
  with na show False by (simp add: isna_def)
qed

subsection \<open>Joining tables\<close>

lemma index_of_in: "x \<in> set xs \<Longrightarrow> \<exists>k. index_of x xs = Some k"
  using index_of_None[of x xs] by (cases "index_of x xs") auto





















subsection \<open>Identity fields\<close>





section \<open>Properties of the splitter\<close>

subsection \<open>Train/test split\<close>

lemma unique_Nil_iff: "unique xs = [] \<longleftrightarrow> xs = []"
  by (metis unique_def remdups_eq_nil_iff sort_key_simps(1) length_0_conv length_sort)

lemma ex_train_test_split:
  "set_train_test_split ex_rng ex_loader (1 / 3) True =
     (Inr ([0, 1, 2], [3, 4, 5]),
      ex_loader\<lparr>test_size := Some (1 / 3), train_indices := Some [0, 1, 2],
                 test_indices := Some [3, 4, 5]\<rparr>)"
  by code_simp

text \<open>
  Claim C3.  After a successful call of \<open>set_train_test_split\<close>, for any table, test
  fraction, seed and generator, the stake-measurement IDs of the rows assigned to train
  and those of the rows assigned to test are disjoint.  The method checks this itself:
  it raises \<open>AssertionError\<close> instead of returning when the two sides share an ID.
\<close>

theorem set_train_test_split_ids_disjoint:
  assumes "fst (set_train_test_split rng self ts sh) = Inr (tr, te)"
      and "get_column ''ID'' (data self) = Inr ids"
  shows "set (map (\<lambda>i. ids ! i) tr) \<inter> set (map (\<lambda>i. ids ! i) te) = {}"
  using assms
  by (auto simp: set_train_test_split_def prepare_data_for_cv_def Let_def intersect1d_def
        unique_Nil_iff filter_empty_conv
      split: sum.splits prod.splits if_splits)

theorem set_train_test_split_ids_disjoint_witness:
  "fst (set_train_test_split ex_rng ex_loader (1 / 3) True) = Inr ([0, 1, 2], [3, 4, 5])
   \<and> get_column ''ID'' (data ex_loader) = Inr [1, 1, 2, 3, 3, 3]
   \<and> set (map (\<lambda>i. [1, 1, 2, 3, 3, 3 :: int] ! i) [0, 1, 2])
       \<inter> set (map (\<lambda>i. [1, 1, 2, 3, 3, 3] ! i) [3, 4, 5]) = {}"
proof -
  have 1: "fst (set_train_test_split ex_rng ex_loader (1 / 3) True) = Inr ([0, 1, 2], [3, 4, 5])"
    by (simp add: ex_train_test_split)
  have 2: "get_column ''ID'' (data ex_loader) = Inr [1, 1, 2, 3, 3, 3]"
    by code_simp
  show ?thesis using set_train_test_split_ids_disjoint[OF 1 2] 1 2 by simp
qed

text \<open>
  Claim C10.  The \<open>shuffle\<close> parameter of \<open>set_train_test_split\<close> has no effect: for every
  table, test fraction, seed and generator the call with \<open>shuffle = True\<close> and the call
  with \<open>shuffle = False\<close> return the same partition and leave the same object.
\<close>

theorem set_train_test_split_ignores_shuffle:
  "set_train_test_split rng self ts True = set_train_test_split rng self ts False"
  by (simp add: set_train_test_split_def)

subsection \<open>The state error of the cross-validation request\<close>

lemma get_cv_split_not_split_iff:
  "(fst (get_cv_split rng self k tf) = Inl (ValueError not_split_message))
     = (train_indices self = None)"
  by (auto simp: get_cv_split_def validate_train_iterator_def get_train_data_def iloc_def
        prepare_data_for_cv_def create_group_kfold_splits_def group_kfold_split_def kfold_split_def
        check_n_splits_def drop_columns_def get_column_def not_split_message_def Let_def
      split: sum.splits prod.splits if_splits option.splits)

lemma set_train_test_split_sets_indices:
  "fst (set_train_test_split rng self ts sh) = Inr (tr, te) \<Longrightarrow>
   train_indices (snd (set_train_test_split rng self ts sh)) = Some tr"
  by (auto simp: set_train_test_split_def Let_def split: sum.splits prod.splits if_splits)

text \<open>
  Claim C7.  \<open>get_cv_split\<close> raises the state error ("call set_train_test_split first")
  exactly when the object holds no train/test split: it raises it in every state without
  train indices, in particular on a new object, and in no state that has them, in
  particular in no state a successful \<open>set_train_test_split\<close> leaves.
\<close>

theorem get_cv_split_state_error:
  "((fst (get_cv_split rng self k tf) = Inl (ValueError not_split_message))
      = (train_indices self = None))
   \<and> fst (get_cv_split rng (DataLoader_init d seed) k tf) = Inl (ValueError not_split_message)
   \<and> (fst (set_train_test_split rng self ts sh) = Inr (tr, te) \<longrightarrow>
        fst (get_cv_split rng (snd (set_train_test_split rng self ts sh)) k' tf')
          \<noteq> Inl (ValueError not_split_message))"
  by (simp add: get_cv_split_not_split_iff set_train_test_split_sets_indices DataLoader_init_def)

theorem get_cv_split_state_error_witness:
  "train_indices ex_loader = None
   \<and> fst (get_cv_split ex_rng ex_loader 2 ''random'') = Inl (ValueError not_split_message)
   \<and> fst (set_train_test_split ex_rng ex_loader (1 / 3) True) = Inr ([0, 1, 2], [3, 4, 5])
   \<and> fst (get_cv_split ex_rng (snd (set_train_test_split ex_rng ex_loader (1 / 3) True)) 2 ''random'')
        \<noteq> Inl (ValueError not_split_message)"
proof -
  have 1: "train_indices ex_loader = None"
    by (simp add: ex_loader_def DataLoader_init_def)
  have 2: "fst (set_train_test_split ex_rng ex_loader (1 / 3) True) = Inr ([0, 1, 2], [3, 4, 5])"
    by (simp add: ex_train_test_split)
  show ?thesis
    using get_cv_split_state_error[of ex_rng ex_loader 2 "''random''" ex_table 42
        "1 / 3" True "[0, 1, 2]" "[3, 4, 5]" 2 "''random''"] 1 2
    by simp
qed

subsection \<open>The k-fold splitters of the library\<close>

lemma flatnonzero_map: "flatnonzero (map P [0..<n]) = filter P [0..<n]"
  by (auto simp: flatnonzero_def intro: filter_cong)

lemma split_of_test_eq:
  "split_of_test n P = (filter (\<lambda>i. \<not> P i) [0..<n], filter P [0..<n])"
proof -
  have "flatnonzero (map Not (map P [0..<n])) = filter (\<lambda>i. \<not> P i) [0..<n]"
    using flatnonzero_map[of "\<lambda>i. \<not> P i" n] by (simp add: comp_def)
  then show ?thesis by (simp add: split_of_test_def Let_def flatnonzero_map)
qed

lemma check_n_splits_Inr:
  "check_n_splits k n = Inr k' \<Longrightarrow> int k' = k \<and> 2 \<le> k' \<and> k' \<le> n"
  by (auto simp: check_n_splits_def split: if_splits)

lemma length_takeWhile_lt: "\<exists>x\<in>set xs. \<not> P x \<Longrightarrow> length (takeWhile P xs) < length xs"
  by (induction xs) auto

lemma argmin_less: "xs \<noteq> [] \<Longrightarrow> argmin xs < length xs"
proof -
  assume "xs \<noteq> []"
  then have "min_list xs \<in> set xs" by (simp add: min_list_Min)
  then show ?thesis unfolding argmin_def by (intro length_takeWhile_lt) auto
qed

lemma distribute_inv:
  assumes "length pf = k" and "0 < k" and "\<forall>x\<in>set g2f. x < k"
  shows "length (snd (distribute vs (pf, g2f))) = length g2f
       \<and> (\<forall>x\<in>set (snd (distribute vs (pf, g2f))). x < k)"
  using assms
proof (induction vs arbitrary: pf g2f)
  case Nil
  then show ?case by simp
next
  case (Cons v vs)
  obtain g w where v: "v = (g, w)" by (cases v)
  have am: "argmin pf < k" using Cons.prems argmin_less[of pf] by auto
  have "\<forall>x\<in>set (g2f[g := argmin pf]). x < k"
    using Cons.prems(3) am set_update_subset_insert[of g2f g "argmin pf"] by auto
  then show ?case
    using Cons.IH[of "pf[argmin pf := pf ! argmin pf + w]" "g2f[g := argmin pf]"] Cons.prems
    by (simp add: v Let_def)
qed

lemma unique_inverse_less:
  "i < length groups \<Longrightarrow> unique_inverse groups ! i < length (unique groups)"
proof -
  assume i: "i < length groups"
  then have "groups ! i \<in> set (unique groups)" by (simp add: unique_def)
  then have "length (takeWhile (\<lambda>c. c \<noteq> groups ! i) (unique groups)) < length (unique groups)"
    by (intro length_takeWhile_lt) auto
  then show ?thesis using i by (simp add: unique_inverse_def)
qed

lemma unique_inverse_same:
  "i < length groups \<Longrightarrow> j < length groups \<Longrightarrow> groups ! i = groups ! j \<Longrightarrow>
   unique_inverse groups ! i = unique_inverse groups ! j"
  by (simp add: unique_inverse_def)
lemma sum_list_kfold_sizes: "0 < k \<Longrightarrow> sum_list (kfold_sizes n k) = n"
proof -
  assume k: "0 < k"
  have "sum_list (kfold_sizes n k) = (\<Sum>f = 0..<k. n div k + (if f < n mod k then 1 else 0))"
    by (simp add: kfold_sizes_def interv_sum_list_conv_sum_set_nat)
  also have "\<dots> = k * (n div k) + (\<Sum>f = 0..<k. if f < n mod k then 1 else 0)"
    by (simp add: sum.distrib)
  also have "(\<Sum>f = 0..<k. if f < n mod k then 1 else (0::nat)) = card {f \<in> {0..<k}. f < n mod k}"
    by (simp add: sum.If_cases Int_def)
  also have "{f \<in> {0..<k}. f < n mod k} = {0..<n mod k}"
  proof -
    have "n mod k < k" using k by simp
    then show ?thesis by auto
  qed
  finally show ?thesis by simp
qed

lemma kfold_test_folds_concat:
  "length (kfold_test_folds indices sizes) = length sizes
   \<and> concat (kfold_test_folds indices sizes) = take (sum_list sizes) indices"
proof (induction sizes arbitrary: indices)
  case Nil
  then show ?case by simp
next
  case (Cons s sizes)
  show ?case using Cons.IH[of "drop s indices"] by (simp add: take_add)
qed

lemma distinct_concat_nth_disjoint:
  assumes "distinct (concat xss)" and "f < length xss" and "g < length xss" and "f \<noteq> g"
  shows "set (xss ! f) \<inter> set (xss ! g) = {}"
  using assms
proof (induction xss arbitrary: f g)
  case Nil
  then show ?case by simp
next
  case (Cons xs xss)
  show ?case
  proof (cases f)
    case 0
    then obtain g' where g: "g = Suc g'" using Cons.prems(4) by (cases g) auto
    then have "xss ! g' \<in> set xss" using Cons.prems(3) by simp
    then have "set (xss ! g') \<subseteq> set (concat xss)" by auto
    with Cons.prems(1) 0 g show ?thesis by auto
  next
    case (Suc f')
    show ?thesis
    proof (cases g)
      case 0
      have "xss ! f' \<in> set xss" using Cons.prems(2) Suc by simp
      then have "set (xss ! f') \<subseteq> set (concat xss)" by auto
      with Cons.prems(1) 0 Suc show ?thesis by auto
    next
      case (Suc g')
      with \<open>f = Suc f'\<close> Cons.prems Cons.IH[of f' g'] show ?thesis by simp
    qed
  qed
qed


lemma group_kfold_split_folds:
  assumes "group_kfold_split k n groups = Inr folds" and n: "n = length groups"
  shows "\<exists>fold_of. length fold_of = n \<and> (\<forall>i<n. fold_of ! i < nat k) \<and> 2 \<le> nat k \<and> int (nat k) = k
           \<and> (\<forall>i<n. \<forall>j<n. groups ! i = groups ! j \<longrightarrow> fold_of ! i = fold_of ! j)
           \<and> folds = map (\<lambda>f. (filter (\<lambda>i. fold_of ! i \<noteq> f) [0..<n],
                                  filter (\<lambda>i. fold_of ! i = f) [0..<n])) [0..<nat k]"
proof -
  from assms(1) obtain k' where ck: "check_n_splits k n = Inr k'"
    by (auto simp: group_kfold_split_def split: sum.splits)
  from check_n_splits_Inr[OF ck] have k': "int k' = k" "2 \<le> k'" "k' \<le> n" by auto
  then have nk: "nat k = k'" by auto
  define gi where "gi = unique_inverse groups"
  define ng where "ng = length (unique groups)"
  define w where "w = bincount gi ng"
  define g2f where "g2f = snd (distribute (map (\<lambda>g. (g, w ! g)) (rev (argsort w)))
                     (replicate k' 0, replicate ng 0))"
  define fold_of where "fold_of = map (\<lambda>gi. g2f ! gi) gi"
  have "group_kfold_split k n groups =
          (if ng < k' then Inl (ValueError ''Cannot have number of splits greater than the number of groups'')
           else Inr (map (\<lambda>f. split_of_test n (\<lambda>i. fold_of ! i = f)) [0..<k']))"
    by (simp only: group_kfold_split_def ck Let_def sum.case fold_of_def g2f_def w_def ng_def
        gi_def)
  with assms(1) have folds: "folds = map (\<lambda>f. split_of_test n (\<lambda>i. fold_of ! i = f)) [0..<k']"
    by (simp split: if_splits)
  have inv: "length g2f = ng \<and> (\<forall>x\<in>set g2f. x < k')"
    unfolding g2f_def
    using distribute_inv[of "replicate k' 0" k' "replicate ng 0"] k' by simp
  have len_gi: "length gi = n" by (simp add: gi_def unique_inverse_def n)
  have len_fo: "length fold_of = n" by (simp add: fold_of_def len_gi)
  have lt: "fold_of ! i < k'" if "i < n" for i
  proof -
    have "gi ! i < ng" using that n by (simp add: gi_def ng_def unique_inverse_less)
    then have "g2f ! (gi ! i) \<in> set g2f" using inv by simp
    then show ?thesis using inv that len_gi by (simp add: fold_of_def)
  qed
  have same: "fold_of ! i = fold_of ! j" if "i < n" "j < n" "groups ! i = groups ! j" for i j
    using that unique_inverse_same[of i groups j] len_gi n by (simp add: fold_of_def gi_def)
  have f2: "folds = map (\<lambda>f. (filter (\<lambda>i. fold_of ! i \<noteq> f) [0..<n],
                                  filter (\<lambda>i. fold_of ! i = f) [0..<n])) [0..<nat k]"
    unfolding folds nk by (simp add: split_of_test_eq)
  have main: "length fold_of = n \<and> (\<forall>i<n. fold_of ! i < nat k) \<and> 2 \<le> nat k \<and> int (nat k) = k
           \<and> (\<forall>i<n. \<forall>j<n. groups ! i = groups ! j \<longrightarrow> fold_of ! i = fold_of ! j)
           \<and> folds = map (\<lambda>f. (filter (\<lambda>i. fold_of ! i \<noteq> f) [0..<n],
                                  filter (\<lambda>i. fold_of ! i = f) [0..<n])) [0..<nat k]"
  proof (intro conjI)
    show "length fold_of = n" by (rule len_fo)
    show "\<forall>i<n. fold_of ! i < nat k" using lt nk by simp
    show "2 \<le> nat k" using k' nk by simp
    show "int (nat k) = k" using k' nk by simp
    show "\<forall>i<n. \<forall>j<n. groups ! i = groups ! j \<longrightarrow> fold_of ! i = fold_of ! j"
      using same by blast
    show "folds = map (\<lambda>f. (filter (\<lambda>i. fold_of ! i \<noteq> f) [0..<n],
                                  filter (\<lambda>i. fold_of ! i = f) [0..<n])) [0..<nat k]"
      by (rule f2)
  qed
  show ?thesis by (rule exI[where x = fold_of]) (rule main)
qed

lemma kfold_split_folds:
  assumes "kfold_split rng seed k n = Inr folds"
      and "distinct (rng seed n)" and "set (rng seed n) = {0..<n}"
  shows "\<exists>T. length T = nat k \<and> 2 \<le> nat k \<and> int (nat k) = k \<and> concat T = rng seed n
           \<and> folds = map (\<lambda>t. (filter (\<lambda>i. i \<notin> set t) [0..<n],
                                  filter (\<lambda>i. i \<in> set t) [0..<n])) T"
proof -
  from assms(1) obtain k' where ck: "check_n_splits k n = Inr k'"
    by (auto simp: kfold_split_def split: sum.splits)
  from check_n_splits_Inr[OF ck] have k': "int k' = k" "2 \<le> k'" "k' \<le> n" by auto
  then have nk: "nat k = k'" by auto
  define T where "T = kfold_test_folds (rng seed n) (kfold_sizes n k')"
  have folds: "folds = map (\<lambda>t. split_of_test n (\<lambda>i. i \<in> set t)) T"
    using assms(1) by (simp add: kfold_split_def ck Let_def T_def)
  have "length (rng seed n) = card (set (rng seed n))"
    using assms(2) by (simp add: distinct_card)
  then have len: "length (rng seed n) = n" using assms(3) by simp
  have lenT: "length T = k'"
    using kfold_test_folds_concat[of "rng seed n" "kfold_sizes n k'"]
    by (simp add: T_def kfold_sizes_def)
  have "sum_list (kfold_sizes n k') = n"
    using k' by (intro sum_list_kfold_sizes) simp
  then have cT: "concat T = rng seed n"
    using kfold_test_folds_concat[of "rng seed n" "kfold_sizes n k'"] len
    by (simp add: T_def)
  have main: "length T = nat k \<and> 2 \<le> nat k \<and> int (nat k) = k \<and> concat T = rng seed n
           \<and> folds = map (\<lambda>t. (filter (\<lambda>i. i \<notin> set t) [0..<n],
                                  filter (\<lambda>i. i \<in> set t) [0..<n])) T"
  proof (intro conjI)
    show "length T = nat k" using lenT nk by simp
    show "2 \<le> nat k" using k' nk by simp
    show "int (nat k) = k" using k' nk by simp
    show "concat T = rng seed n" by (rule cT)
    show "folds = map (\<lambda>t. (filter (\<lambda>i. i \<notin> set t) [0..<n],
                                  filter (\<lambda>i. i \<in> set t) [0..<n])) T"
      unfolding folds by (simp add: split_of_test_eq)
  qed
  show ?thesis by (rule exI[where x = T]) (rule main)
qed

lemma group_kfold_split_props:
  assumes g: "group_kfold_split k n groups = Inr folds" and n: "n = length groups"
  shows "int (length folds) = k"
    and "\<And>tr va. (tr, va) \<in> set folds \<Longrightarrow> set tr \<union> set va = {0..<n} \<and> set tr \<inter> set va = {}"
    and "\<And>i. i < n \<Longrightarrow> \<exists>!f. f < length folds \<and> i \<in> set (snd (folds ! f))"
    and "\<And>tr va. (tr, va) \<in> set folds \<Longrightarrow>
           set (map (\<lambda>i. groups ! i) tr) \<inter> set (map (\<lambda>i. groups ! i) va) = {}"
proof -
  from group_kfold_split_folds[OF g n] obtain fold_of
    where lt: "\<And>i. i < n \<Longrightarrow> fold_of ! i < nat k" and k: "int (nat k) = k"
      and same: "\<And>i j. i < n \<Longrightarrow> j < n \<Longrightarrow> groups ! i = groups ! j \<Longrightarrow> fold_of ! i = fold_of ! j"
      and folds: "folds = map (\<lambda>f. (filter (\<lambda>i. fold_of ! i \<noteq> f) [0..<n],
                                  filter (\<lambda>i. fold_of ! i = f) [0..<n])) [0..<nat k]"
    by blast
  have len: "length folds = nat k" by (simp add: folds)
  show "int (length folds) = k" using len k by simp
  have nth: "folds ! f = (filter (\<lambda>i. fold_of ! i \<noteq> f) [0..<n], filter (\<lambda>i. fold_of ! i = f) [0..<n])"
    if "f < nat k" for f using that by (simp add: folds)
  { fix tr va assume "(tr, va) \<in> set folds"
    then obtain f where f: "tr = filter (\<lambda>i. fold_of ! i \<noteq> f) [0..<n]"
      "va = filter (\<lambda>i. fold_of ! i = f) [0..<n]"
      by (auto simp: folds)
    show "set tr \<union> set va = {0..<n} \<and> set tr \<inter> set va = {}"
      unfolding f by auto
    show "set (map (\<lambda>i. groups ! i) tr) \<inter> set (map (\<lambda>i. groups ! i) va) = {}"
    proof (rule ccontr)
      assume "set (map (\<lambda>i. groups ! i) tr) \<inter> set (map (\<lambda>i. groups ! i) va) \<noteq> {}"
      then obtain a b where a: "a \<in> set tr" and b: "b \<in> set va" and ab: "groups ! a = groups ! b"
        by auto
      from a b f have "a < n" "b < n" "fold_of ! a \<noteq> f" "fold_of ! b = f" by auto
      with same[of a b] ab show False by simp
    qed }
  fix i assume i: "i < n"
  show "\<exists>!f. f < length folds \<and> i \<in> set (snd (folds ! f))"
  proof (rule ex1I[where a = "fold_of ! i"])
    show "fold_of ! i < length folds \<and> i \<in> set (snd (folds ! (fold_of ! i)))"
      using lt[OF i] i len nth by simp
  next
    fix f assume a: "f < length folds \<and> i \<in> set (snd (folds ! f))"
    then have "f < nat k" using len by simp
    from nth[OF this] a show "f = fold_of ! i" by auto
  qed
qed

lemma kfold_split_props:
  assumes g: "kfold_split rng seed k n = Inr folds"
      and d: "distinct (rng seed n)" and s: "set (rng seed n) = {0..<n}"
  shows "int (length folds) = k"
    and "\<And>tr va. (tr, va) \<in> set folds \<Longrightarrow> set tr \<union> set va = {0..<n} \<and> set tr \<inter> set va = {}"
    and "\<And>i. i < n \<Longrightarrow> \<exists>!f. f < length folds \<and> i \<in> set (snd (folds ! f))"
proof -
  from kfold_split_folds[OF g d s] obtain T
    where lenT: "length T = nat k" and k: "int (nat k) = k" and cT: "concat T = rng seed n"
      and folds: "folds = map (\<lambda>t. (filter (\<lambda>i. i \<notin> set t) [0..<n],
                                  filter (\<lambda>i. i \<in> set t) [0..<n])) T"
    by blast
  have len: "length folds = length T" by (simp add: folds)
  show "int (length folds) = k" using len lenT k by simp
  have nth: "snd (folds ! f) = filter (\<lambda>i. i \<in> set (T ! f)) [0..<n]" if "f < length T" for f
    using that by (simp add: folds)
  { fix tr va assume "(tr, va) \<in> set folds"
    then obtain t where f: "tr = filter (\<lambda>i. i \<notin> set t) [0..<n]"
      "va = filter (\<lambda>i. i \<in> set t) [0..<n]"
      by (auto simp: folds)
    show "set tr \<union> set va = {0..<n} \<and> set tr \<inter> set va = {}"
      unfolding f by auto }
  fix i assume i: "i < n"
  have dc: "distinct (concat T)" using d cT by simp
  from i s cT have "i \<in> set (concat T)" by simp
  then obtain t where "t \<in> set T" "i \<in> set t" by auto
  then obtain f0 where f0: "f0 < length T" "i \<in> set (T ! f0)"
    by (auto simp: in_set_conv_nth)
  show "\<exists>!f. f < length folds \<and> i \<in> set (snd (folds ! f))"
  proof (rule ex1I[where a = f0])
    show "f0 < length folds \<and> i \<in> set (snd (folds ! f0))"
      using f0 i len nth by simp
  next
    fix f assume a: "f < length folds \<and> i \<in> set (snd (folds ! f))"
    then have "f < length T" "i \<in> set (T ! f)" using len nth by auto
    with distinct_concat_nth_disjoint[OF dc this(1) f0(1)] f0(2) show "f = f0" by auto
  qed
qed

subsection \<open>Cross-validation folds\<close>

lemma prepare_data_for_cv_Inr:
  assumes "prepare_data_for_cv td = Inr (X, y, gl, st)"
  shows "length (rows X) = length (rows td)" and "length gl = length (rows td)"
    and "length st = length (rows td)"
    and "get_column ''RGIId'' td = Inr gl" and "get_column ''ID'' td = Inr st"
proof -
  from assms have d: "drop_columns [''YEAR'', ''POINT_BALANCE'', ''RGIId'', ''ID''] td = Inr X"
    and g: "get_column ''RGIId'' td = Inr gl" and s: "get_column ''ID'' td = Inr st"
    by (auto simp: prepare_data_for_cv_def split: sum.splits)
  show "length (rows X) = length (rows td)" using drop_columns_Inr[OF d] by simp
  show "length gl = length (rows td)" using g by (rule get_column_length)
  show "length st = length (rows td)" using s by (rule get_column_length)
  show "get_column ''RGIId'' td = Inr gl" by (rule g)
  show "get_column ''ID'' td = Inr st" by (rule s)
qed

lemma get_cv_split_Inr:
  assumes "fst (get_cv_split rng self k tf) = Inr folds"
  obtains tr td X y gl st
    where "train_indices self = Some tr" and "get_train_data self = Inr td"
      and "length (rows td) = length tr"
      and "prepare_data_for_cv td = Inr (X, y, gl, st)"
      and "(if tf = ''group-rgi'' then group_kfold_split k (length tr) gl
            else if tf = ''group-meas-id'' then group_kfold_split k (length tr) st
            else kfold_split rng (random_seed self) k (length tr)) = Inr folds"
proof -
  define self1 where "self1 = self\<lparr>n_splits := Some k\<rparr>"
  have s1: "train_indices self1 = train_indices self" "data self1 = data self"
    "random_seed self1 = random_seed self" "n_splits self1 = Some k"
    by (simp_all add: self1_def)
  have gtd: "get_train_data self1 = get_train_data self"
    by (simp add: get_train_data_def s1 cong: option.case_cong)
  from assms obtain tr where tr: "train_indices self = Some tr"
    by (cases "train_indices self")
       (auto simp: get_cv_split_def validate_train_iterator_def Let_def)
  from assms tr gtd obtain td where td: "get_train_data self = Inr td"
    by (cases "get_train_data self")
       (auto simp: get_cv_split_def validate_train_iterator_def Let_def self1_def)
  from assms tr gtd td obtain X y gl st where p: "prepare_data_for_cv td = Inr (X, y, gl, st)"
    by (cases "prepare_data_for_cv td")
       (auto simp: get_cv_split_def validate_train_iterator_def Let_def self1_def)
  from td tr have il: "iloc (data self) tr = Inr td" by (simp add: get_train_data_def)
  have ltd: "length (rows td) = length tr" using iloc_Inr[OF il] by simp
  have lX: "length (rows X) = length tr" using prepare_data_for_cv_Inr(1)[OF p] ltd by simp
  from assms have "create_group_kfold_splits rng self1 X y gl st tf = Inr folds"
    using tr gtd td p
    by (cases "create_group_kfold_splits rng self1 X y gl st tf")
       (auto simp: get_cv_split_def validate_train_iterator_def Let_def self1_def)
  then have c: "(if tf = ''group-rgi'' then group_kfold_split k (length tr) gl
               else if tf = ''group-meas-id'' then group_kfold_split k (length tr) st
               else kfold_split rng (random_seed self) k (length tr)) = Inr folds"
    by (simp add: create_group_kfold_splits_def s1 lX cong: if_cong)
  show thesis by (rule that[OF tr td ltd p c])
qed

lemma group_kfold_split_bounds:
  "group_kfold_split k n groups = Inr folds \<Longrightarrow> 2 \<le> k \<and> k \<le> int n"
  by (auto simp: group_kfold_split_def dest!: check_n_splits_Inr split: sum.splits)

lemma kfold_split_bounds:
  "kfold_split rng seed k n = Inr folds \<Longrightarrow> 2 \<le> k \<and> k \<le> int n"
  by (auto simp: kfold_split_def dest!: check_n_splits_Inr split: sum.splits)

lemma ex_split_loader_eq:
  "ex_split_loader = ex_loader\<lparr>test_size := Some (1 / 3), train_indices := Some [0, 1, 2],
                                 test_indices := Some [3, 4, 5]\<rparr>"
  by (simp add: ex_split_loader_def ex_train_test_split)

lemma ex_get_train_data: "get_train_data ex_split_loader = Inr ex_train_data"
  unfolding ex_split_loader_eq by code_simp

lemma ex_prepare_data_for_cv:
  "prepare_data_for_cv ex_train_data =
     Inr (\<lparr>cols = [''POINT_ELEVATION''], rows = [[7], [7], [7]]\<rparr>, [5, 5, 5], [10, 10, 20], [1, 1, 2])"
  by code_simp

lemma ex_cv_group_rgi:
  "fst (get_cv_split ex_rng ex_split_loader 2 ''group-rgi'') = Inr [([2], [0, 1]), ([0, 1], [2])]"
  unfolding ex_split_loader_eq by code_simp

lemma ex_cv_random:
  "fst (get_cv_split ex_rng ex_split_loader 2 ''random'') = Inr [([0], [1, 2]), ([1, 2], [0])]"
  unfolding ex_split_loader_eq by code_simp

text \<open>
  Claim C5.  For every cross-validation split produced with fold type \<open>group-rgi\<close>
  (grouping by glacier ID) or \<open>group-meas-id\<close> (grouping by measurement ID) and for every
  returned fold, no value of the grouping key occurs both among the rows at the fold's
  train indices and among the rows at its validation indices.  The keys are those of the
  training subset, which the fold indices are positions of.
\<close>

theorem cv_group_folds_keep_groups_apart:
  assumes "fst (get_cv_split rng self k tf) = Inr folds"
      and "get_train_data self = Inr train_data"
      and "prepare_data_for_cv train_data = Inr (X, y, glacier_ids, stake_meas_id)"
  shows "(tf = ''group-rgi'' \<longrightarrow>
            (\<forall>(train, val)\<in>set folds.
               set (map (\<lambda>i. glacier_ids ! i) train) \<inter> set (map (\<lambda>i. glacier_ids ! i) val) = {}))
       \<and> (tf = ''group-meas-id'' \<longrightarrow>
            (\<forall>(train, val)\<in>set folds.
               set (map (\<lambda>i. stake_meas_id ! i) train)
                 \<inter> set (map (\<lambda>i. stake_meas_id ! i) val) = {}))"
proof -
  obtain tr td X' y' gl st
    where tr: "train_indices self = Some tr"
      and td: "get_train_data self = Inr td"
      and ltd': "length (rows td) = length tr"
      and p': "prepare_data_for_cv td = Inr (X', y', gl, st)"
      and c': "(if tf = ''group-rgi'' then group_kfold_split k (length tr) gl
               else if tf = ''group-meas-id'' then group_kfold_split k (length tr) st
               else kfold_split rng (random_seed self) k (length tr)) = Inr folds"
    by (rule get_cv_split_Inr[OF assms(1)])
  from td assms(2) have e: "td = train_data" by simp
  from p' assms(3) have e2: "gl = glacier_ids" "st = stake_meas_id" unfolding e by simp_all
  note ltd = ltd'[unfolded e]
  note c = c'[unfolded e2]
  note p = prepare_data_for_cv_Inr[OF assms(3)]
  have rgi: "set (map (\<lambda>i. glacier_ids ! i) train) \<inter> set (map (\<lambda>i. glacier_ids ! i) val) = {}"
    if "tf = ''group-rgi''" "(train, val) \<in> set folds" for train val
  proof -
    from c that(1) have g: "group_kfold_split k (length tr) glacier_ids = Inr folds" by simp
    have n: "length tr = length glacier_ids" using p(2) ltd by simp
    from group_kfold_split_props(4)[OF g n that(2)] show ?thesis .
  qed
  have meas: "set (map (\<lambda>i. stake_meas_id ! i) train) \<inter> set (map (\<lambda>i. stake_meas_id ! i) val) = {}"
    if "tf = ''group-meas-id''" "(train, val) \<in> set folds" for train val
  proof -
    from c that(1) have g: "group_kfold_split k (length tr) stake_meas_id = Inr folds" by simp
    have n: "length tr = length stake_meas_id" using p(3) ltd by simp
    from group_kfold_split_props(4)[OF g n that(2)] show ?thesis .
  qed
  show ?thesis using rgi meas by blast
qed

theorem cv_group_folds_keep_groups_apart_witness:
  "fst (get_cv_split ex_rng ex_split_loader 2 ''group-rgi'') = Inr [([2], [0, 1]), ([0, 1], [2])]
   \<and> get_train_data ex_split_loader = Inr ex_train_data
   \<and> get_column ''RGIId'' ex_train_data = Inr [10, 10, 20]
   \<and> set (map (\<lambda>i. [10, 10, 20 :: int] ! i) [2]) \<inter> set (map (\<lambda>i. [10, 10, 20] ! i) [0, 1]) = {}
   \<and> set (map (\<lambda>i. [10, 10, 20 :: int] ! i) [0, 1]) \<inter> set (map (\<lambda>i. [10, 10, 20] ! i) [2]) = {}"
proof -
  have g: "get_column ''RGIId'' ex_train_data = Inr [10, 10, 20]" by code_simp
  show ?thesis
    using cv_group_folds_keep_groups_apart[OF ex_cv_group_rgi ex_get_train_data
        ex_prepare_data_for_cv] ex_cv_group_rgi ex_get_train_data g
    by simp
qed

text \<open>
  Claim C6, as the specification states it, fails: \<open>get_cv_split\<close> does not return \<open>k\<close>
  pairs for every \<open>k\<close>.  On the example, whose training subset has three rows, one fold
  and four folds are refused with a \<open>ValueError\<close> of the k-fold library.
\<close>

theorem get_cv_split_every_k_counterexample:
  "train_indices ex_split_loader = Some [0, 1, 2]
   \<and> fst (get_cv_split ex_rng ex_split_loader 1 ''random'')
       = Inl (ValueError ''k-fold cross-validation requires at least one train/test split'')
   \<and> fst (get_cv_split ex_rng ex_split_loader 4 ''random'')
       = Inl (ValueError ''Cannot have number of splits greater than the number of samples'')"
  unfolding ex_split_loader_eq by code_simp

text \<open>
  Claim C6, amended.  For every fold type and every \<open>n_folds = k\<close> for which
  \<open>get_cv_split\<close> returns, \<open>k\<close> is at least two and at most the number of rows of the
  training subset, and \<open>get_cv_split\<close> returns exactly \<open>k\<close> pairs of train and
  validation indices; the indices are positions within the training subset, each pair
  splits these positions in two, and every position appears in the validation side of
  exactly one fold.  (The generator of the library yields a shuffle of \<open>0..n-1\<close>.)
\<close>

theorem get_cv_split_folds_cover:
  assumes "fst (get_cv_split rng self k tf) = Inr folds"
      and "train_indices self = Some tr"
      and "distinct (rng (random_seed self) (length tr))"
      and "set (rng (random_seed self) (length tr)) = {0..<length tr}"
  shows "2 \<le> k \<and> k \<le> int (length tr) \<and> int (length folds) = k
       \<and> (\<forall>(train, val)\<in>set folds.
             set train \<union> set val = {0..<length tr} \<and> set train \<inter> set val = {})
       \<and> (\<forall>i<length tr. \<exists>!f. f < length folds \<and> i \<in> set (snd (folds ! f)))"
proof -
  obtain tr' td X y gl st
    where tr': "train_indices self = Some tr'"
      and td: "get_train_data self = Inr td"
      and ltd': "length (rows td) = length tr'"
      and p: "prepare_data_for_cv td = Inr (X, y, gl, st)"
      and c': "(if tf = ''group-rgi'' then group_kfold_split k (length tr') gl
               else if tf = ''group-meas-id'' then group_kfold_split k (length tr') st
               else kfold_split rng (random_seed self) k (length tr')) = Inr folds"
    by (rule get_cv_split_Inr[OF assms(1)])
  from tr' assms(2) have e: "tr' = tr" by simp
  note ltd = ltd'[unfolded e]
  note c = c'[unfolded e]
  note q = prepare_data_for_cv_Inr[OF p]
  have "2 \<le> k \<and> k \<le> int (length tr) \<and> int (length folds) = k
       \<and> (\<forall>train val. (train, val) \<in> set folds \<longrightarrow>
             set train \<union> set val = {0..<length tr} \<and> set train \<inter> set val = {})
       \<and> (\<forall>i<length tr. \<exists>!f. f < length folds \<and> i \<in> set (snd (folds ! f)))"
  proof (cases "tf = ''group-rgi''")
    case True
    with c have g: "group_kfold_split k (length tr) gl = Inr folds" by simp
    have n: "length tr = length gl" using q(2) ltd by simp
    show ?thesis
      using group_kfold_split_bounds[OF g] group_kfold_split_props(1)[OF g n]
        group_kfold_split_props(2)[OF g n] group_kfold_split_props(3)[OF g n]
      by blast
  next
    case False
    show ?thesis
    proof (cases "tf = ''group-meas-id''")
      case True
      with c False have g: "group_kfold_split k (length tr) st = Inr folds" by simp
      have n: "length tr = length st" using q(3) ltd by simp
      show ?thesis
        using group_kfold_split_bounds[OF g] group_kfold_split_props(1)[OF g n]
          group_kfold_split_props(2)[OF g n] group_kfold_split_props(3)[OF g n]
        by blast
    next
      case False
      with c \<open>tf \<noteq> ''group-rgi''\<close>
      have g: "kfold_split rng (random_seed self) k (length tr) = Inr folds" by simp
      show ?thesis
        using kfold_split_bounds[OF g] kfold_split_props(1)[OF g assms(3,4)]
          kfold_split_props(2)[OF g assms(3,4)] kfold_split_props(3)[OF g assms(3,4)]
        by blast
    qed
  qed
  then show ?thesis by auto
qed

theorem get_cv_split_folds_cover_witness:
  "fst (get_cv_split ex_rng ex_split_loader 2 ''random'') = Inr [([0], [1, 2]), ([1, 2], [0])]
   \<and> train_indices ex_split_loader = Some [0, 1, 2]
   \<and> distinct (ex_rng (random_seed ex_split_loader) (length [0, 1, 2 :: nat]))
   \<and> set (ex_rng (random_seed ex_split_loader) (length [0, 1, 2 :: nat])) = {0..<length [0, 1, 2 :: nat]}
   \<and> int (length [([0 :: nat], [1, 2 :: nat]), ([1, 2], [0])]) = 2"
proof -
  have 1: "train_indices ex_split_loader = Some [0, 1, 2]"
    by (simp add: ex_split_loader_eq)
  have 2: "distinct (ex_rng (random_seed ex_split_loader) (length [0, 1, 2 :: nat]))"
    by (simp add: ex_rng_def)
  have 3: "set (ex_rng (random_seed ex_split_loader) (length [0, 1, 2 :: nat]))
            = {0..<length [0, 1, 2 :: nat]}"
    by (auto simp: ex_rng_def)
  show ?thesis
    using get_cv_split_folds_cover[OF ex_cv_random 1 2 3] ex_cv_random 1 2 3 by simp
qed

end
